theory Spec2Isabelle
  imports Main "HOL-Library.Word" "HOL-Library.Multiset" "HOL-Library.Code_Target_Numeral"
begin

section \<open>2cca: a shallow embedding of \<^verbatim>\<open>2cca.c\<close>\<close>

text \<open>
  The program is a single C file built on OpenSSL. Its own control flow, its fixed-size
  character arrays and its use of the file system are translated line by line. The
  OpenSSL objects it handles (keys, names, certificates, revocation lists, signatures)
  are modelled symbolically: a signature records the key that made it, the digest and
  the signed content, and the results of the library calls that depend on the outside
  world (random bytes, fresh keys, the clock, which extension requests the library
  accepts, which files can be opened for writing) are read from a record \<open>env\<close>.
  Undefined behaviour of the C program (writing past the end of an array, using a NULL
  pointer) is an explicit outcome \<open>Inl fault\<close>; the model stops there.
\<close>

subsection \<open>Constants (lines 23-28)\<close>

definition RSA_KEYSZ :: int where "RSA_KEYSZ = 2048"
definition FIELD_SZ :: nat where "FIELD_SZ = 128"
definition SERIAL_SZ :: nat where "SERIAL_SZ = 16"
definition MAX_SAN :: nat where "MAX_SAN = 8"
definition BIG_FIELD :: nat where "BIG_FIELD = MAX_SAN * (FIELD_SZ + 1)"

datatype fault = Buffer_overrun | Null_dereference

text \<open>A string and its terminating NUL fit into a \<^verbatim>\<open>char[n]\<close>.\<close>

definition strfits :: "nat \<Rightarrow> string \<Rightarrow> bool" where
  "strfits n s \<longleftrightarrow> length s < n"

subsection \<open>Configuration (lines 36-58)\<close>

datatype profile =
    PROFILE_UNKNOWN
  | PROFILE_ROOT_CA
  | PROFILE_SUB_CA
  | PROFILE_SERVER
  | PROFILE_CLIENT
  | PROFILE_WWW

text \<open>
  The global \<^verbatim>\<open>certinfo\<close>. The fields carry the prefix \<open>ci_\<close> because \<open>o\<close>, \<open>c\<close> and
  \<open>l\<close> cannot be constants of a theory. Every string field is a \<^verbatim>\<open>char[FIELD_SZ+1]\<close>.
\<close>

record certinfo =
  ci_o :: string
  ci_ou :: string
  ci_cn :: string
  ci_c :: string
  ci_days :: int
  ci_l :: string
  ci_st :: string
  ci_san :: string
  ci_profile :: profile
  ci_signing_ca :: string
  ci_rsa_keysz :: int
  ci_ec_name :: string

subsection \<open>OpenSSL objects\<close>

text \<open>An RSA key pair is its modulus size in bits and its key material, an elliptic-curve
  pair its key material; a certificate's public key is the public half of the pair it
  names.\<close>

type_synonym rsa = "int \<times> nat"
type_synonym ec_key = nat

datatype evp_pkey = EVP_PKEY_RSA rsa | EVP_PKEY_EC ec_key

text \<open>The digests of the library; the source only ever asks for \<^verbatim>\<open>EVP_sha256()\<close>.\<close>

datatype evp_md = EVP_sha1 | EVP_sha256

text \<open>
  The objects of the library that matter here. \<open>NID_ext_key_usage\<close> is the extended key
  usage extension; \<open>NID_anyExtendedKeyUsage\<close>, the one the source names, is the purpose
  "any" that such an extension may list.
\<close>

datatype nid =
    NID_basic_constraints
  | NID_key_usage
  | NID_subject_key_identifier
  | NID_authority_key_identifier
  | NID_subject_alt_name
  | NID_anyExtendedKeyUsage
  | NID_ext_key_usage
  | NID_netscape_cert_type

text \<open>A name is the list of its entries (field, value) in the order they were added; an
  extension is the object it was requested under and its configuration string.\<close>

type_synonym x509_name = "(string \<times> string) list"
type_synonym x509_extension = "nid \<times> string"

record x509_cinf =
  version :: int
  serialNumber :: int
  notBefore :: int
  notAfter :: int
  subject :: x509_name
  issuer :: x509_name
  pubkey :: "evp_pkey option"
  extensions :: "x509_extension list"

record x509_signature =
  sig_key :: evp_pkey
  sig_md :: evp_md
  sig_over :: x509_cinf

record x509 =
  cert_info :: x509_cinf
  signature :: "x509_signature option"

record x509_revoked =
  rev_serialNumber :: int
  revocationDate :: int
  reason :: int

record x509_crl_info =
  crl_version :: int
  crl_issuer :: x509_name
  lastUpdate :: int
  nextUpdate :: int
  revoked :: "x509_revoked list"
  crl_number :: "int option"

record x509_crl_signature =
  crl_sig_key :: evp_pkey
  crl_sig_md :: evp_md
  crl_sig_over :: x509_crl_info

record x509_crl =
  crl :: x509_crl_info
  crl_signature :: "x509_crl_signature option"

text \<open>\<^verbatim>\<open>identity\<close> (lines 31-34): both members are pointers and may be NULL.\<close>

record identity =
  key :: "evp_pkey option"
  cert :: "x509 option"

subsection \<open>The outside world\<close>

text \<open>What a file holds, as the PEM readers see it.\<close>

datatype file_content =
    PEM_X509 x509
  | PEM_PrivateKey evp_pkey
  | PEM_X509_CRL x509_crl
  | Not_PEM

text \<open>
  \<open>files\<close> is the current directory, \<open>stderr\<close> the diagnostics printed so far, and
  \<open>keys_generated\<close> counts the calls made to the key generators.
\<close>

record world =
  files :: "string \<rightharpoonup> file_content"
  stderr :: "string list"
  keys_generated :: nat

text \<open>
  What the run takes from outside: the bytes that \<^verbatim>\<open>/dev/urandom\<close> delivers, the clock,
  the key that each generator produces (\<open>None\<close> is NULL; for the elliptic curve NULL
  means that the curve name is unknown), whether the library adds a name entry with a
  given field and value, whether \<^verbatim>\<open>X509V3_EXT_conf_nid\<close> builds an extension in the
  context of an issuer and a subject certificate for an object and a configuration
  string, whether the library signs with a given key and digest (\<^verbatim>\<open>ASN1_item_sign\<close> is
  what \<^verbatim>\<open>X509_sign\<close> and \<^verbatim>\<open>X509_CRL_sign\<close> call), and whether \<^verbatim>\<open>fopen(name, "wb")\<close>
  succeeds.
\<close>

record env =
  urandom :: "nat \<Rightarrow> 8 word"
  time_now :: int
  RSA_generate_key :: "int \<Rightarrow> rsa option"
  EC_KEY_new_by_curve_name :: "string \<Rightarrow> ec_key option"
  X509_NAME_add_entry :: "string \<Rightarrow> string \<Rightarrow> bool"
  X509V3_EXT_conf_nid :: "x509 option \<Rightarrow> x509 \<Rightarrow> nid \<Rightarrow> string \<Rightarrow> bool"
  ASN1_item_sign :: "evp_pkey \<Rightarrow> evp_md \<Rightarrow> bool"
  fopen_wb :: "string \<Rightarrow> bool"

definition fprintf_stderr :: "string \<Rightarrow> world \<Rightarrow> world" where
  "fprintf_stderr msg w = w\<lparr>stderr := stderr w @ [msg]\<rparr>"

definition PEM_read_X509 :: "file_content \<Rightarrow> x509 option" where
  "PEM_read_X509 f = (case f of PEM_X509 x \<Rightarrow> Some x | _ \<Rightarrow> None)"

definition PEM_read_RSAPrivateKey :: "file_content \<Rightarrow> rsa option" where
  "PEM_read_RSAPrivateKey f =
     (case f of PEM_PrivateKey (EVP_PKEY_RSA r) \<Rightarrow> Some r | _ \<Rightarrow> None)"

definition PEM_read_bio_X509_CRL :: "file_content \<Rightarrow> x509_crl option" where
  "PEM_read_bio_X509_CRL f = (case f of PEM_X509_CRL x \<Rightarrow> Some x | _ \<Rightarrow> None)"

definition X509_new :: x509 where
  "X509_new =
     \<lparr>cert_info = \<lparr>version = 0, serialNumber = 0, notBefore = 0, notAfter = 0,
                   subject = [], issuer = [], pubkey = None, extensions = []\<rparr>,
      signature = None\<rparr>"

definition X509_set_version :: "x509 \<Rightarrow> int \<Rightarrow> x509" where
  "X509_set_version x v = x\<lparr>cert_info := (cert_info x)\<lparr>version := v\<rparr>\<rparr>"

definition X509_set_serialNumber :: "x509 \<Rightarrow> int \<Rightarrow> x509" where
  "X509_set_serialNumber x n = x\<lparr>cert_info := (cert_info x)\<lparr>serialNumber := n\<rparr>\<rparr>"

definition X509_set_notBefore :: "x509 \<Rightarrow> int \<Rightarrow> x509" where
  "X509_set_notBefore x t = x\<lparr>cert_info := (cert_info x)\<lparr>notBefore := t\<rparr>\<rparr>"

definition X509_set_notAfter :: "x509 \<Rightarrow> int \<Rightarrow> x509" where
  "X509_set_notAfter x t = x\<lparr>cert_info := (cert_info x)\<lparr>notAfter := t\<rparr>\<rparr>"

definition X509_set_pubkey :: "x509 \<Rightarrow> evp_pkey \<Rightarrow> x509" where
  "X509_set_pubkey x k = x\<lparr>cert_info := (cert_info x)\<lparr>pubkey := Some k\<rparr>\<rparr>"

definition X509_set_subject_name :: "x509 \<Rightarrow> x509_name \<Rightarrow> x509" where
  "X509_set_subject_name x n = x\<lparr>cert_info := (cert_info x)\<lparr>subject := n\<rparr>\<rparr>"

definition X509_set_issuer_name :: "x509 \<Rightarrow> x509_name \<Rightarrow> x509" where
  "X509_set_issuer_name x n = x\<lparr>cert_info := (cert_info x)\<lparr>issuer := n\<rparr>\<rparr>"

definition X509_get_subject_name :: "x509 \<Rightarrow> x509_name" where
  "X509_get_subject_name x = subject (cert_info x)"

definition X509_add_ext :: "x509 \<Rightarrow> x509_extension \<Rightarrow> x509" where
  "X509_add_ext x ext =
     x\<lparr>cert_info := (cert_info x)\<lparr>extensions := extensions (cert_info x) @ [ext]\<rparr>\<rparr>"

text \<open>The library adds the entry or refuses it (a country code that is not two
  characters long, a value longer than the field allows); the source does not look at
  the result.\<close>

definition X509_NAME_add_entry_by_txt ::
  "env \<Rightarrow> x509_name \<Rightarrow> string \<Rightarrow> string \<Rightarrow> x509_name" where
  "X509_NAME_add_entry_by_txt e name field val =
     (if X509_NAME_add_entry e field val then name @ [(field, val)] else name)"

text \<open>\<^verbatim>\<open>X509_NAME_get_text_by_NID(name, nid, buf, len)\<close>: the first entry of that field, cut
  to \<open>len - 1\<close> characters; \<open>None\<close> when there is none (the buffer is then left as it is).\<close>

definition X509_NAME_get_text_by_NID :: "x509_name \<Rightarrow> string \<Rightarrow> nat \<Rightarrow> string option" where
  "X509_NAME_get_text_by_NID name field len =
     (case map_of name field of None \<Rightarrow> None | Some v \<Rightarrow> Some (take (len - 1) v))"

text \<open>
  \<^verbatim>\<open>X509_sign\<close>: whether the library signed, and the certificate afterwards. When the
  library cannot sign with that key and digest the certificate stays without a
  signature.
\<close>

definition X509_sign :: "env \<Rightarrow> x509 \<Rightarrow> evp_pkey \<Rightarrow> evp_md \<Rightarrow> bool \<times> x509" where
  "X509_sign e x k md =
     (if ASN1_item_sign e k md
      then (True, x\<lparr>signature := Some \<lparr>sig_key = k, sig_md = md, sig_over = cert_info x\<rparr>\<rparr>)
      else (False, x))"

text \<open>A certificate verifies against a public key when its signature was made by the
  private half of that key over the content the certificate has now.\<close>

definition X509_verify :: "x509 \<Rightarrow> evp_pkey \<Rightarrow> bool" where
  "X509_verify x k =
     (case signature x of
        None \<Rightarrow> False
      | Some s \<Rightarrow> sig_key s = k \<and> sig_over s = cert_info x)"

definition X509_check_private_key :: "x509 option \<Rightarrow> evp_pkey option \<Rightarrow> bool" where
  "X509_check_private_key xo ko =
     (case (xo, ko) of
        (Some x, Some k) \<Rightarrow> pubkey (cert_info x) = Some k
      | _ \<Rightarrow> False)"

text \<open>\<^verbatim>\<open>BN_bin2bn\<close>: the big-endian value of a byte string.\<close>

definition BN_bin2bn :: "8 word list \<Rightarrow> int" where
  "BN_bin2bn bs = foldl (\<lambda>a b. a * 256 + uint b) 0 bs"

subsection \<open>\<^verbatim>\<open>set_extension\<close> (lines 63-76)\<close>

text \<open>The library either builds the extension in the context of the issuer and the
  subject certificate or returns NULL; what is kept of a built extension is its object
  and its configuration string.\<close>

definition set_extension :: "env \<Rightarrow> x509 option \<Rightarrow> x509 \<Rightarrow> nid \<Rightarrow> string \<Rightarrow> int \<times> x509" where
  "set_extension e issuer_cert x n val =
     (if \<not> X509V3_EXT_conf_nid e issuer_cert x n val then (- 1, x)
      else (0, X509_add_ext x (n, val)))"

subsection \<open>\<^verbatim>\<open>set_serial128\<close> (lines 81-99)\<close>

text \<open>\<^verbatim>\<open>fread\<close> fills the array with \<open>SERIAL_SZ\<close> bytes of \<^verbatim>\<open>/dev/urandom\<close>.\<close>

definition c_serial :: "env \<Rightarrow> 8 word list" where
  "c_serial e = ((map (urandom e) [0 ..< SERIAL_SZ])[0 := 0x2c])[1 := 0xca]"

definition set_serial128 :: "env \<Rightarrow> x509 \<Rightarrow> int \<times> x509" where
  "set_serial128 e x = (0, X509_set_serialNumber x (BN_bin2bn (c_serial e)))"

subsection \<open>\<^verbatim>\<open>load_ca\<close> (lines 119-148)\<close>

definition nl :: string where
  "nl = [CHR 0x0A]"

text \<open>
  The result is the filled-in \<^verbatim>\<open>identity\<close> when the function returns 0 and \<open>None\<close>
  when it returns -1. The local \<^verbatim>\<open>filename\<close> is a \<^verbatim>\<open>char[FIELD_SZ+1]\<close>. A file that does
  not parse leaves a NULL member; \<^verbatim>\<open>X509_check_private_key\<close> is taken to answer 0 then,
  as it does for a key that does not match.
\<close>

definition load_ca :: "string \<Rightarrow> world \<Rightarrow> (fault + identity option) \<times> world" where
  "load_ca ca_name w =
     (if \<not> strfits (FIELD_SZ + 1) (ca_name @ ''.crt'') then (Inl Buffer_overrun, w)
      else case files w (ca_name @ ''.crt'') of
        None \<Rightarrow> (Inr None, fprintf_stderr (''Cannot find: '' @ ca_name @ ''.crt'' @ nl) w)
      | Some f \<Rightarrow>
          let ca_cert = PEM_read_X509 f in
          if \<not> strfits (FIELD_SZ + 1) (ca_name @ ''.key'') then (Inl Buffer_overrun, w)
          else case files w (ca_name @ ''.key'') of
            None \<Rightarrow> (Inr None, w)
          | Some g \<Rightarrow>
              let rsa = PEM_read_RSAPrivateKey g;
                  ca_key = map_option EVP_PKEY_RSA rsa
              in if \<not> X509_check_private_key ca_cert ca_key
                 then (Inr None,
                       fprintf_stderr (''CA certificate and private key do not match'' @ nl) w)
                 else (Inr (Some \<lparr>key = ca_key, cert = ca_cert\<rparr>), w))"

subsection \<open>\<^verbatim>\<open>build_identity\<close> (lines 153-347)\<close>

text \<open>Lines 176-200: the organisational unit of each profile; \<open>None\<close> is the default
  branch, which aborts.\<close>

definition profile_ou :: "profile \<Rightarrow> string option" where
  "profile_ou p =
     (case p of
        PROFILE_ROOT_CA \<Rightarrow> Some ''Root''
      | PROFILE_SUB_CA \<Rightarrow> Some ''Sub''
      | PROFILE_SERVER \<Rightarrow> Some ''Server''
      | PROFILE_CLIENT \<Rightarrow> Some ''Client''
      | PROFILE_WWW \<Rightarrow> Some ''Server''
      | PROFILE_UNKNOWN \<Rightarrow> None)"

text \<open>
  Lines 207-218: every profile but the root loads the signing authority and takes its
  organisation. For the root the local \<^verbatim>\<open>ca\<close> stays as it was declared; it is modelled
  with both members NULL.
\<close>

definition load_signing_ca ::
  "certinfo \<Rightarrow> world \<Rightarrow> (fault + (identity \<times> certinfo) option) \<times> world" where
  "load_signing_ca ci w =
     (if ci_profile ci \<noteq> PROFILE_ROOT_CA then
        (case load_ca (ci_signing_ca ci) w of
           (Inl ft, w') \<Rightarrow> (Inl ft, w')
         | (Inr None, w') \<Rightarrow>
             (Inr None, fprintf_stderr (''Cannot find CA key or certificate'' @ nl) w')
         | (Inr (Some ca), w') \<Rightarrow>
             (case cert ca of
                None \<Rightarrow> (Inl Null_dereference, w')
              | Some ca_cert \<Rightarrow>
                  (case X509_NAME_get_text_by_NID (X509_get_subject_name ca_cert) ''O'' FIELD_SZ of
                     None \<Rightarrow> (Inr (Some (ca, ci)), w')
                   | Some org \<Rightarrow> (Inr (Some (ca, ci\<lparr>ci_o := org\<rparr>)), w'))))
      else (Inr (Some (\<lparr>key = None, cert = None\<rparr>, ci)), w))"

text \<open>
  Lines 220-237: the key pair; \<open>Inr None\<close> is the return of -1 for an unknown curve. The
  result of \<^verbatim>\<open>RSA_generate_key\<close> is used unchecked, so a NULL result is taken as a fault.
  Each call of a generator is counted in \<open>keys_generated\<close>.
\<close>

definition generate_key_pair ::
  "env \<Rightarrow> certinfo \<Rightarrow> world \<Rightarrow> (fault + evp_pkey option) \<times> world" where
  "generate_key_pair e ci w =
     (if ci_ec_name ci \<noteq> [] then
        (case EC_KEY_new_by_curve_name e (ci_ec_name ci) of
           None \<Rightarrow>
             (Inr None, fprintf_stderr (''Unknown curve: ['' @ ci_ec_name ci @ '']'' @ nl) w)
         | Some ecc \<Rightarrow>
             (Inr (Some (EVP_PKEY_EC ecc)), w\<lparr>keys_generated := keys_generated w + 1\<rparr>))
      else
        (case RSA_generate_key e (ci_rsa_keysz ci) of
           None \<Rightarrow> (Inl Null_dereference, w\<lparr>keys_generated := keys_generated w + 1\<rparr>)
         | Some rsa \<Rightarrow>
             (Inr (Some (EVP_PKEY_RSA rsa)), w\<lparr>keys_generated := keys_generated w + 1\<rparr>)))"

definition X509_gmtime_adj :: "env \<Rightarrow> int \<Rightarrow> int" where
  "X509_gmtime_adj e adj = time_now e + adj"

text \<open>A product of C \<^verbatim>\<open>int\<close>s, as the 32-bit two's complement arithmetic of the machine
  gives it.\<close>

definition int32 :: "int \<Rightarrow> int" where
  "int32 n = (n + 2 ^ 31) mod 2 ^ 32 - 2 ^ 31"

text \<open>Lines 239-259: version, serial, validity, public key and subject name.\<close>

definition assign_fields :: "env \<Rightarrow> certinfo \<Rightarrow> evp_pkey \<Rightarrow> x509" where
  "assign_fields e ci pkey =
     (let x = X509_new;
          x = X509_set_version x 2;
          x = snd (set_serial128 e x);
          x = X509_set_notBefore x (X509_gmtime_adj e 0);
          x = X509_set_notAfter x (X509_gmtime_adj e (int32 (ci_days ci * 24 * 60 * 60)));
          x = X509_set_pubkey x pkey;
          name = X509_get_subject_name x;
          name = (if ci_c ci \<noteq> [] then X509_NAME_add_entry_by_txt e name ''C'' (ci_c ci)
                  else name);
          name = X509_NAME_add_entry_by_txt e name ''O'' (ci_o ci);
          name = X509_NAME_add_entry_by_txt e name ''CN'' (ci_cn ci);
          name = X509_NAME_add_entry_by_txt e name ''OU'' (ci_ou ci);
          name = (if ci_l ci \<noteq> [] then X509_NAME_add_entry_by_txt e name ''L'' (ci_l ci)
                  else name);
          name = (if ci_st ci \<noteq> [] then X509_NAME_add_entry_by_txt e name ''ST'' (ci_st ci)
                  else name)
      in X509_set_subject_name x name)"

text \<open>Lines 261-317: the extensions of each profile, one \<^verbatim>\<open>set_extension\<close> call after
  the other; the return values are dropped as in the source.\<close>

definition set_profile_extensions :: "env \<Rightarrow> certinfo \<Rightarrow> identity \<Rightarrow> x509 \<Rightarrow> x509" where
  "set_profile_extensions e ci ca x0 =
     (case ci_profile ci of
        PROFILE_ROOT_CA \<Rightarrow>
          (let x = snd (set_extension e (Some x0) x0 NID_basic_constraints ''critical,CA:TRUE'');
               x = snd (set_extension e (Some x) x NID_key_usage ''critical,keyCertSign,cRLSign'');
               x = snd (set_extension e (Some x) x NID_subject_key_identifier ''hash'');
               x = snd (set_extension e (Some x) x NID_authority_key_identifier ''keyid:always'')
           in x)
      | PROFILE_SUB_CA \<Rightarrow>
          (let x = snd (set_extension e (cert ca) x0 NID_basic_constraints ''critical,CA:TRUE'');
               x = snd (set_extension e (cert ca) x NID_key_usage ''critical,keyCertSign,cRLSign'');
               x = snd (set_extension e (cert ca) x NID_subject_key_identifier ''hash'');
               x = snd (set_extension e (cert ca) x NID_authority_key_identifier ''keyid:always'')
           in x)
      | PROFILE_CLIENT \<Rightarrow>
          (let x = (if ci_san ci \<noteq> []
                    then snd (set_extension e (cert ca) x0 NID_subject_alt_name (ci_san ci))
                    else x0);
               x = snd (set_extension e (cert ca) x NID_basic_constraints ''CA:FALSE'');
               x = snd (set_extension e (cert ca) x NID_anyExtendedKeyUsage ''clientAuth'');
               x = snd (set_extension e (cert ca) x NID_key_usage ''digitalSignature'');
               x = snd (set_extension e (cert ca) x NID_subject_key_identifier ''hash'');
               x = snd (set_extension e (cert ca) x NID_authority_key_identifier
                          ''issuer:always,keyid:always'')
           in x)
      | PROFILE_SERVER \<Rightarrow>
          (let x = (if ci_san ci \<noteq> []
                    then snd (set_extension e (cert ca) x0 NID_subject_alt_name (ci_san ci))
                    else x0);
               x = snd (set_extension e (cert ca) x NID_basic_constraints ''CA:FALSE'');
               x = snd (set_extension e (cert ca) x NID_netscape_cert_type ''server'');
               x = snd (set_extension e (cert ca) x NID_anyExtendedKeyUsage ''serverAuth'');
               x = snd (set_extension e (cert ca) x NID_key_usage
                          ''digitalSignature,keyEncipherment'');
               x = snd (set_extension e (cert ca) x NID_subject_key_identifier ''hash'');
               x = snd (set_extension e (cert ca) x NID_authority_key_identifier
                          ''issuer:always,keyid:always'')
           in x)
      | PROFILE_WWW \<Rightarrow>
          (let x = (if ci_san ci \<noteq> []
                    then snd (set_extension e (cert ca) x0 NID_subject_alt_name (ci_san ci))
                    else x0);
               x = snd (set_extension e (cert ca) x NID_basic_constraints ''CA:FALSE'');
               x = snd (set_extension e (cert ca) x NID_netscape_cert_type ''server'');
               x = snd (set_extension e (cert ca) x NID_anyExtendedKeyUsage
                          ''serverAuth,clientAuth'');
               x = snd (set_extension e (cert ca) x NID_key_usage
                          ''digitalSignature,keyEncipherment'');
               x = snd (set_extension e (cert ca) x NID_subject_key_identifier ''hash'');
               x = snd (set_extension e (cert ca) x NID_authority_key_identifier
                          ''issuer:always,keyid:always'')
           in x)
      | PROFILE_UNKNOWN \<Rightarrow> x0)"

text \<open>Lines 318-327: the issuer name and the signature. The result of \<^verbatim>\<open>X509_sign\<close> is
  dropped, as in the source.\<close>

definition set_issuer_and_sign ::
  "env \<Rightarrow> certinfo \<Rightarrow> identity \<Rightarrow> evp_pkey \<Rightarrow> x509 \<Rightarrow> fault + x509" where
  "set_issuer_and_sign e ci ca pkey x =
     (if ci_profile ci = PROFILE_ROOT_CA then
        Inr (snd (X509_sign e (X509_set_issuer_name x (X509_get_subject_name x)) pkey
                    EVP_sha256))
      else
        (case cert ca of
           None \<Rightarrow> Inl Null_dereference
         | Some ca_cert \<Rightarrow>
             (case key ca of
                None \<Rightarrow> Inl Null_dereference
              | Some ca_key \<Rightarrow>
                  Inr (snd (X509_sign e
                              (X509_set_issuer_name x (X509_get_subject_name ca_cert))
                              ca_key EVP_sha256)))))"

text \<open>
  Lines 329-346: the key goes to the file named by \<^verbatim>\<open>filename\<close>, which still holds the
  \<^verbatim>\<open>.key\<close> name of line 170, and the certificate to the \<^verbatim>\<open>.crt\<close> file. The results of
  \<^verbatim>\<open>fopen\<close> are used unchecked.
\<close>

definition save_results ::
  "env \<Rightarrow> certinfo \<Rightarrow> evp_pkey \<Rightarrow> x509 \<Rightarrow> world \<Rightarrow> (fault + int) \<times> world" where
  "save_results e ci pkey x w =
     (if \<not> fopen_wb e (ci_cn ci @ ''.key'') then (Inl Null_dereference, w)
      else
        let w = w\<lparr>files := (files w)(ci_cn ci @ ''.key'' \<mapsto> PEM_PrivateKey pkey)\<rparr>
        in if \<not> strfits (FIELD_SZ + 5) (ci_cn ci @ ''.crt'') then (Inl Buffer_overrun, w)
           else if \<not> fopen_wb e (ci_cn ci @ ''.crt'') then (Inl Null_dereference, w)
           else (Inr 0, w\<lparr>files := (files w)(ci_cn ci @ ''.crt'' \<mapsto> PEM_X509 x)\<rparr>))"

definition already_exists :: "string \<Rightarrow> string" where
  "already_exists filename =
     ''identity named '' @ filename @ '' already exists in this directory. Exiting now'' @ nl"

text \<open>The whole function: the return value, the global \<^verbatim>\<open>certinfo\<close> and the world.\<close>

definition build_identity ::
  "env \<Rightarrow> certinfo \<Rightarrow> world \<Rightarrow> (fault + int) \<times> certinfo \<times> world" where
  "build_identity e ci w =
     (if \<not> strfits (FIELD_SZ + 5) (ci_cn ci @ ''.crt'') then (Inl Buffer_overrun, ci, w)
      else if files w (ci_cn ci @ ''.crt'') \<noteq> None
        then (Inr (- 1), ci, fprintf_stderr (already_exists (ci_cn ci @ ''.crt'')) w)
      else if \<not> strfits (FIELD_SZ + 5) (ci_cn ci @ ''.key'') then (Inl Buffer_overrun, ci, w)
      else if files w (ci_cn ci @ ''.key'') \<noteq> None
        then (Inr (- 1), ci, fprintf_stderr (already_exists (ci_cn ci @ ''.key'')) w)
      else case profile_ou (ci_profile ci) of
        None \<Rightarrow> (Inr (- 1), ci, fprintf_stderr (''Unknown profile: aborting'' @ nl) w)
      | Some ou \<Rightarrow>
          let ci = ci\<lparr>ci_ou := ou\<rparr> in
          if ci_ec_name ci \<noteq> [] \<and> ci_profile ci \<noteq> PROFILE_CLIENT
          then (Inr (- 1), ci,
                fprintf_stderr (''ECC keys are only supported for clients'' @ nl) w)
          else case load_signing_ca ci w of
            (Inl ft, w) \<Rightarrow> (Inl ft, ci, w)
          | (Inr None, w) \<Rightarrow> (Inr (- 1), ci, w)
          | (Inr (Some (ca, ci)), w) \<Rightarrow>
              (case generate_key_pair e ci w of
                 (Inl ft, w) \<Rightarrow> (Inl ft, ci, w)
               | (Inr None, w) \<Rightarrow> (Inr (- 1), ci, w)
               | (Inr (Some pkey), w) \<Rightarrow>
                   (case set_issuer_and_sign e ci ca pkey
                           (set_profile_extensions e ci ca (assign_fields e ci pkey)) of
                      Inl ft \<Rightarrow> (Inl ft, ci, w)
                    | Inr x \<Rightarrow>
                        (case save_results e ci pkey x w of
                           (r, w) \<Rightarrow> (r, ci, w)))))"

subsection \<open>\<^verbatim>\<open>load_crl\<close> (lines 349-367) and \<^verbatim>\<open>revoke_cert\<close> (lines 408-502)\<close>

definition load_crl :: "string \<Rightarrow> world \<Rightarrow> fault + x509_crl option" where
  "load_crl ca_name w =
     (if \<not> strfits (FIELD_SZ + 5) (ca_name @ ''.crl'') then Inl Buffer_overrun
      else case files w (ca_name @ ''.crl'') of
        None \<Rightarrow> Inr None
      | Some f \<Rightarrow> Inr (PEM_read_bio_X509_CRL f))"

definition X509_CRL_new :: x509_crl where
  "X509_CRL_new =
     \<lparr>crl = \<lparr>crl_version = 0, crl_issuer = [], lastUpdate = 0, nextUpdate = 0,
             revoked = [], crl_number = None\<rparr>,
      crl_signature = None\<rparr>"

definition X509_CRL_set_version :: "x509_crl \<Rightarrow> int \<Rightarrow> x509_crl" where
  "X509_CRL_set_version c v = c\<lparr>crl := (crl c)\<lparr>crl_version := v\<rparr>\<rparr>"

definition X509_CRL_set_crl_number :: "x509_crl \<Rightarrow> int \<Rightarrow> x509_crl" where
  "X509_CRL_set_crl_number c n = c\<lparr>crl := (crl c)\<lparr>crl_number := Some n\<rparr>\<rparr>"

definition X509_CRL_set_lastUpdate :: "x509_crl \<Rightarrow> int \<Rightarrow> x509_crl" where
  "X509_CRL_set_lastUpdate c t = c\<lparr>crl := (crl c)\<lparr>lastUpdate := t\<rparr>\<rparr>"

definition X509_CRL_set_nextUpdate :: "x509_crl \<Rightarrow> int \<Rightarrow> x509_crl" where
  "X509_CRL_set_nextUpdate c t = c\<lparr>crl := (crl c)\<lparr>nextUpdate := t\<rparr>\<rparr>"

definition X509_CRL_add0_revoked :: "x509_crl \<Rightarrow> x509_revoked \<Rightarrow> x509_crl" where
  "X509_CRL_add0_revoked c r = c\<lparr>crl := (crl c)\<lparr>revoked := revoked (crl c) @ [r]\<rparr>\<rparr>"

text \<open>
  \<^verbatim>\<open>X509_CRL_sort\<close> orders the entries with \<^verbatim>\<open>ASN1_STRING_cmp\<close> on their serial numbers:
  first by the length of the magnitude, then by its bytes, then by the sign. That is the
  order of the magnitudes, with a negative number after the positive one of the same
  magnitude; \<open>serial_rank\<close> numbers the integers in that order. Entries of the same
  serial are left in the order they had.
\<close>

definition serial_rank :: "int \<Rightarrow> int" where
  "serial_rank n = 2 * \<bar>n\<bar> + (if n < 0 then 1 else 0)"

definition X509_CRL_sort :: "x509_crl \<Rightarrow> x509_crl" where
  "X509_CRL_sort c =
     c\<lparr>crl := (crl c)\<lparr>revoked :=
         sort_key (\<lambda>r. serial_rank (rev_serialNumber r)) (revoked (crl c))\<rparr>\<rparr>"

definition X509_CRL_set_issuer_name :: "x509_crl \<Rightarrow> x509_name \<Rightarrow> x509_crl" where
  "X509_CRL_set_issuer_name c n = c\<lparr>crl := (crl c)\<lparr>crl_issuer := n\<rparr>\<rparr>"

text \<open>\<^verbatim>\<open>X509_CRL_sign\<close>: whether the library signed, and the list afterwards.\<close>

definition X509_CRL_sign :: "env \<Rightarrow> x509_crl \<Rightarrow> evp_pkey \<Rightarrow> evp_md \<Rightarrow> bool \<times> x509_crl" where
  "X509_CRL_sign e c k md =
     (if ASN1_item_sign e k md
      then (True, c\<lparr>crl_signature :=
                      Some \<lparr>crl_sig_key = k, crl_sig_md = md, crl_sig_over = crl c\<rparr>\<rparr>)
      else (False, c))"

text \<open>
  Lines 442-459: a new list numbered 1 when none can be loaded, else the loaded list
  with its number increased by one. A loaded list without a number gives a NULL
  \<^verbatim>\<open>crlnum\<close>, which is then used.
\<close>

definition load_or_create_crl :: "string \<Rightarrow> world \<Rightarrow> fault + x509_crl" where
  "load_or_create_crl ca_name w =
     (case load_crl ca_name w of
        Inl ft \<Rightarrow> Inl ft
      | Inr None \<Rightarrow> Inr (X509_CRL_set_crl_number (X509_CRL_set_version X509_CRL_new 1) 1)
      | Inr (Some c) \<Rightarrow>
          (case crl_number (crl c) of
             None \<Rightarrow> Inl Null_dereference
           | Some crlnum \<Rightarrow> Inr (X509_CRL_set_crl_number c (crlnum + 1))))"

text \<open>Lines 461-474: the dates, the new entry and the sort.\<close>

definition add_revoked_entry :: "env \<Rightarrow> x509_revoked \<Rightarrow> x509_crl \<Rightarrow> x509_crl" where
  "add_revoked_entry e rvk c =
     (let tm = X509_gmtime_adj e 0;
          rvk = rvk\<lparr>revocationDate := tm\<rparr>;
          c = X509_CRL_set_lastUpdate c tm;
          tm = X509_gmtime_adj e (365 * 24 * 60 * 60);
          c = X509_CRL_set_nextUpdate c tm;
          c = X509_CRL_add0_revoked c rvk
      in X509_CRL_sort c)"

text \<open>Lines 476-501: the authority is loaded, \<^verbatim>\<open>X509_CRL_sign\<close> is called and its result
  dropped, and only then is the file opened and the list written.\<close>

definition sign_and_dump_crl ::
  "env \<Rightarrow> string \<Rightarrow> x509_crl \<Rightarrow> world \<Rightarrow> (fault + unit) \<times> world" where
  "sign_and_dump_crl e ca_name c w =
     (case load_ca ca_name w of
        (Inl ft, w) \<Rightarrow> (Inl ft, w)
      | (Inr None, w) \<Rightarrow> (Inr (), fprintf_stderr (''Cannot find CA key/crt'' @ nl) w)
      | (Inr (Some ca), w) \<Rightarrow>
          (case cert ca of
             None \<Rightarrow> (Inl Null_dereference, w)
           | Some ca_cert \<Rightarrow>
               (case key ca of
                  None \<Rightarrow> (Inl Null_dereference, w)
                | Some ca_key \<Rightarrow>
                    let c = X509_CRL_set_issuer_name c (X509_get_subject_name ca_cert);
                        c = snd (X509_CRL_sign e c ca_key EVP_sha256)
                    in if \<not> strfits (FIELD_SZ + 5) (ca_name @ ''.crl'')
                       then (Inl Buffer_overrun, w)
                       else if \<not> fopen_wb e (ca_name @ ''.crl'')
                       then (Inr (),
                             fprintf_stderr
                               (''Cannot write '' @ ca_name @ ''.crl'' @ '': aborting'' @ nl) w)
                       else (Inr (),
                             w\<lparr>files := (files w)(ca_name @ ''.crl'' \<mapsto> PEM_X509_CRL c)\<rparr>))))"

definition revoke_cert :: "env \<Rightarrow> string \<Rightarrow> string \<Rightarrow> world \<Rightarrow> (fault + unit) \<times> world" where
  "revoke_cert e ca_name name w =
     (if \<not> strfits (FIELD_SZ + 5) (name @ ''.crt'') then (Inl Buffer_overrun, w)
      else case files w (name @ ''.crt'') of
        None \<Rightarrow> (Inr (), fprintf_stderr (''Cannot find: '' @ name @ ''.crt'' @ nl) w)
      | Some f \<Rightarrow>
          (case PEM_read_X509 f of
             None \<Rightarrow> (Inl Null_dereference, w)
           | Some x \<Rightarrow>
               let r_serial = serialNumber (cert_info x);
                   rvk = \<lparr>rev_serialNumber = r_serial, revocationDate = 0, reason = 0\<rparr>
               in case load_or_create_crl ca_name w of
                    Inl ft \<Rightarrow> (Inl ft, w)
                  | Inr c \<Rightarrow> sign_and_dump_crl e ca_name (add_revoked_entry e rvk c) w))"

subsection \<open>\<^verbatim>\<open>parse_cmd_line\<close> (lines 565-624)\<close>

definition isspace :: "char \<Rightarrow> bool" where
  "isspace ch \<longleftrightarrow>
     ch = CHR '' '' \<or> ch = CHR 0x09 \<or> ch = CHR 0x0A \<or> ch = CHR 0x0B \<or> ch = CHR 0x0C
     \<or> ch = CHR 0x0D"

text \<open>
  \<^verbatim>\<open>sscanf(argv[i], "%[^=]=%s", key, val) == 2\<close>: a non-empty run of characters other
  than \<open>=\<close>, the \<open>=\<close>, and after optional white space a non-empty run of characters
  that are not white space. \<open>Inr None\<close> stands for any other return value. Both targets
  are \<^verbatim>\<open>char[FIELD_SZ+1]\<close> and the conversions carry no width.
\<close>

definition sscanf_key_val :: "string \<Rightarrow> fault + (string \<times> string) option" where
  "sscanf_key_val arg =
     (let k = takeWhile (\<lambda>ch. ch \<noteq> CHR ''='') arg;
          rest = dropWhile (\<lambda>ch. ch \<noteq> CHR ''='') arg
      in if k = [] then Inr None
         else if \<not> strfits (FIELD_SZ + 1) k then Inl Buffer_overrun
         else case rest of
           [] \<Rightarrow> Inr None
         | eq # after \<Rightarrow>
             let v = takeWhile (\<lambda>ch. \<not> isspace ch) (dropWhile isspace after)
             in if v = [] then Inr None
                else if \<not> strfits (FIELD_SZ + 1) v then Inl Buffer_overrun
                else Inr (Some (k, v)))"

definition isdigit :: "char \<Rightarrow> bool" where
  "isdigit ch \<longleftrightarrow> (48 :: nat) \<le> of_char ch \<and> (of_char ch :: nat) \<le> 57"

fun atoi_digits :: "int \<Rightarrow> string \<Rightarrow> int" where
  "atoi_digits acc [] = acc"
| "atoi_digits acc (ch # cs) =
     (if isdigit ch then atoi_digits (acc * 10 + (of_char ch - 48)) cs else acc)"

text \<open>\<^verbatim>\<open>strtol\<close> in base 10 with a 64-bit \<^verbatim>\<open>long\<close>: the number read, held at the ends of
  the range.\<close>

definition strtol :: "string \<Rightarrow> int" where
  "strtol s =
     max (- (2 ^ 63)) (min (2 ^ 63 - 1)
       (case dropWhile isspace s of
          [] \<Rightarrow> 0
        | ch # cs \<Rightarrow>
            if ch = CHR ''-'' then - atoi_digits 0 cs
            else if ch = CHR ''+'' then atoi_digits 0 cs
            else atoi_digits 0 (ch # cs)))"

text \<open>\<^verbatim>\<open>atoi\<close> is \<^verbatim>\<open>(int) strtol(s, NULL, 10)\<close>.\<close>

definition atoi :: "string \<Rightarrow> int" where
  "atoi s = int32 (strtol s)"

text \<open>\<^verbatim>\<open>strcpy\<close> and \<^verbatim>\<open>strcat\<close> into a \<^verbatim>\<open>char[n]\<close>.\<close>

definition strcpy :: "nat \<Rightarrow> string \<Rightarrow> fault + string" where
  "strcpy n src = (if strfits n src then Inr src else Inl Buffer_overrun)"

definition strcat :: "nat \<Rightarrow> string \<Rightarrow> string \<Rightarrow> fault + string" where
  "strcat n dst src = (if strfits n (dst @ src) then Inr (dst @ src) else Inl Buffer_overrun)"

definition and_then :: "fault + 'a \<Rightarrow> ('a \<Rightarrow> fault + 'b) \<Rightarrow> fault + 'b" where
  "and_then m f = (case m of Inl ft \<Rightarrow> Inl ft | Inr x \<Rightarrow> f x)"

text \<open>
  Lines 577-616: one \<open>key=val\<close> pair. The state is the global \<^verbatim>\<open>certinfo\<close> and the locals
  \<^verbatim>\<open>ns\<close> and \<^verbatim>\<open>san\<close>; \<open>Inr None\<close> is the return of -1 for an unsupported field. \<open>val\<close>
  comes out of a \<^verbatim>\<open>char[FIELD_SZ+1]\<close>, so it fits the fields it is copied to; \<^verbatim>\<open>tmp\<close> is
  a \<^verbatim>\<open>char[FIELD_SZ+1]\<close> and \<^verbatim>\<open>san\<close> a \<^verbatim>\<open>char[BIG_FIELD+1]\<close>.
\<close>

definition parse_field ::
  "string \<Rightarrow> string \<Rightarrow> certinfo \<Rightarrow> nat \<Rightarrow> string
     \<Rightarrow> fault + (certinfo \<times> nat \<times> string) option" where
  "parse_field k v ci ns san =
     (if k = ''rsa'' then Inr (Some (ci\<lparr>ci_rsa_keysz := atoi v\<rparr>, ns, san))
      else if k = ''ec'' then Inr (Some (ci\<lparr>ci_ec_name := v\<rparr>, ns, san))
      else if k = ''O'' then Inr (Some (ci\<lparr>ci_o := v\<rparr>, ns, san))
      else if k = ''C'' then Inr (Some (ci\<lparr>ci_c := v\<rparr>, ns, san))
      else if k = ''ST'' then Inr (Some (ci\<lparr>ci_st := v\<rparr>, ns, san))
      else if k = ''CN'' then Inr (Some (ci\<lparr>ci_cn := v\<rparr>, ns, san))
      else if k = ''L'' then Inr (Some (ci\<lparr>ci_l := v\<rparr>, ns, san))
      else if k = ''email'' then
        and_then (strcpy (FIELD_SZ + 1) (''email:'' @ v)) (\<lambda>tmp.
          if ns = 0 then
            and_then (strcpy (BIG_FIELD + 1) tmp) (\<lambda>san. Inr (Some (ci, ns + 1, san)))
          else
            and_then (strcat (BIG_FIELD + 1) san ('','' @ nl)) (\<lambda>san.
            and_then (strcat (BIG_FIELD + 1) san tmp) (\<lambda>san.
              Inr (Some (ci, ns + 1, san)))))
      else if k = ''dns'' then
        and_then (strcpy (FIELD_SZ + 1) (''DNS:'' @ v)) (\<lambda>tmp.
          if ns = 0 then
            and_then (strcpy (BIG_FIELD + 1) tmp) (\<lambda>san. Inr (Some (ci, ns + 1, san)))
          else
            and_then (strcat (BIG_FIELD + 1) san '','') (\<lambda>san.
            and_then (strcat (BIG_FIELD + 1) san tmp) (\<lambda>san.
              Inr (Some (ci, ns + 1, san)))))
      else if k = ''days'' then Inr (Some (ci\<lparr>ci_days := atoi v\<rparr>, ns, san))
      else if k = ''ca'' then Inr (Some (ci\<lparr>ci_signing_ca := v\<rparr>, ns, san))
      else Inr None)"

text \<open>Lines 575-618: the loop over \<^verbatim>\<open>argv[2]\<close>, \<^verbatim>\<open>argv[3]\<close>, ...\<close>

fun parse_loop ::
  "string list \<Rightarrow> certinfo \<Rightarrow> nat \<Rightarrow> string \<Rightarrow> fault + (int \<times> certinfo \<times> nat \<times> string)" where
  "parse_loop [] ci ns san = Inr (0, ci, ns, san)"
| "parse_loop (arg # args) ci ns san =
     (case sscanf_key_val arg of
        Inl ft \<Rightarrow> Inl ft
      | Inr None \<Rightarrow> parse_loop args ci ns san
      | Inr (Some (k, v)) \<Rightarrow>
          (case parse_field k v ci ns san of
             Inl ft \<Rightarrow> Inl ft
           | Inr None \<Rightarrow> Inr (- 1, ci, ns, san)
           | Inr (Some (ci', ns', san')) \<Rightarrow> parse_loop args ci' ns' san'))"

text \<open>The whole function on \<^verbatim>\<open>argv\<close>: the return value and the global \<^verbatim>\<open>certinfo\<close>, whose
  \<^verbatim>\<open>san\<close> is a \<^verbatim>\<open>char[FIELD_SZ+1]\<close>.\<close>

definition parse_cmd_line :: "string list \<Rightarrow> certinfo \<Rightarrow> fault + (int \<times> certinfo)" where
  "parse_cmd_line argv ci =
     (case parse_loop (drop 2 argv) ci 0 [] of
        Inl ft \<Rightarrow> Inl ft
      | Inr (rc, ci, ns, san) \<Rightarrow>
          if rc \<noteq> 0 then Inr (rc, ci)
          else if ns > 0 then
            and_then (strcpy (FIELD_SZ + 1) san) (\<lambda>san. Inr (0, ci\<lparr>ci_san := san\<rparr>))
          else Inr (0, ci))"

text \<open>\<^verbatim>\<open>main\<close>, lines 637-642: the configuration before the command line is read.\<close>

definition certinfo_init :: certinfo where
  "certinfo_init =
     \<lparr>ci_o = ''Home'', ci_ou = [], ci_cn = [], ci_c = [], ci_days = 3650, ci_l = [],
      ci_st = [], ci_san = [], ci_profile = PROFILE_UNKNOWN, ci_signing_ca = ''root'',
      ci_rsa_keysz = RSA_KEYSZ, ci_ec_name = []\<rparr>"

subsection \<open>Reading the results back\<close>

text \<open>The certificate and the revocation list stored under a name.\<close>

definition stored_cert :: "world \<Rightarrow> string \<Rightarrow> x509 option" where
  "stored_cert w name =
     (case files w (name @ ''.crt'') of None \<Rightarrow> None | Some f \<Rightarrow> PEM_read_X509 f)"

definition stored_crl :: "world \<Rightarrow> string \<Rightarrow> x509_crl option" where
  "stored_crl w ca_name =
     (case files w (ca_name @ ''.crl'') of None \<Rightarrow> None | Some f \<Rightarrow> PEM_read_bio_X509_CRL f)"

definition stored_extensions :: "world \<Rightarrow> string \<Rightarrow> x509_extension list" where
  "stored_extensions w name =
     (case stored_cert w name of None \<Rightarrow> [] | Some x \<Rightarrow> extensions (cert_info x))"

definition revoked_serials :: "x509_crl \<Rightarrow> int list" where
  "revoked_serials c = map rev_serialNumber (revoked (crl c))"

subsection \<open>The extension templates\<close>

text \<open>
  The template of each profile as the specification's Profile Resolver table gives it,
  as the set of extension objects: basic constraints, key usage, subject and authority
  key identifier for the two authority profiles, and these with the extended key usage
  for the server, client and web-server profiles.
\<close>

definition spec_template :: "profile \<Rightarrow> nid set" where
  "spec_template p =
     (case p of
        PROFILE_ROOT_CA \<Rightarrow>
          {NID_basic_constraints, NID_key_usage, NID_subject_key_identifier,
           NID_authority_key_identifier}
      | PROFILE_SUB_CA \<Rightarrow>
          {NID_basic_constraints, NID_key_usage, NID_subject_key_identifier,
           NID_authority_key_identifier}
      | PROFILE_SERVER \<Rightarrow>
          {NID_basic_constraints, NID_key_usage, NID_ext_key_usage,
           NID_subject_key_identifier, NID_authority_key_identifier}
      | PROFILE_CLIENT \<Rightarrow>
          {NID_basic_constraints, NID_key_usage, NID_ext_key_usage,
           NID_subject_key_identifier, NID_authority_key_identifier}
      | PROFILE_WWW \<Rightarrow>
          {NID_basic_constraints, NID_key_usage, NID_ext_key_usage,
           NID_subject_key_identifier, NID_authority_key_identifier}
      | PROFILE_UNKNOWN \<Rightarrow> {})"

text \<open>
  The amended table, which says nothing about the extended key usage: the extensions
  of each profile other than that one, in the order of the source. The server and
  web-server profiles also have the Netscape certificate type, and the three leaf
  profiles start with the subject alternative name when one was given.
\<close>

definition san_request :: "string \<Rightarrow> x509_extension list" where
  "san_request san = (if san \<noteq> [] then [(NID_subject_alt_name, san)] else [])"

definition amended_template :: "profile \<Rightarrow> string \<Rightarrow> x509_extension list" where
  "amended_template p san =
     (case p of
        PROFILE_ROOT_CA \<Rightarrow>
          [(NID_basic_constraints, ''critical,CA:TRUE''),
           (NID_key_usage, ''critical,keyCertSign,cRLSign''),
           (NID_subject_key_identifier, ''hash''),
           (NID_authority_key_identifier, ''keyid:always'')]
      | PROFILE_SUB_CA \<Rightarrow>
          [(NID_basic_constraints, ''critical,CA:TRUE''),
           (NID_key_usage, ''critical,keyCertSign,cRLSign''),
           (NID_subject_key_identifier, ''hash''),
           (NID_authority_key_identifier, ''keyid:always'')]
      | PROFILE_SERVER \<Rightarrow>
          san_request san @
          [(NID_basic_constraints, ''CA:FALSE''),
           (NID_netscape_cert_type, ''server''),
           (NID_key_usage, ''digitalSignature,keyEncipherment''),
           (NID_subject_key_identifier, ''hash''),
           (NID_authority_key_identifier, ''issuer:always,keyid:always'')]
      | PROFILE_CLIENT \<Rightarrow>
          san_request san @
          [(NID_basic_constraints, ''CA:FALSE''),
           (NID_key_usage, ''digitalSignature''),
           (NID_subject_key_identifier, ''hash''),
           (NID_authority_key_identifier, ''issuer:always,keyid:always'')]
      | PROFILE_WWW \<Rightarrow>
          san_request san @
          [(NID_basic_constraints, ''CA:FALSE''),
           (NID_netscape_cert_type, ''server''),
           (NID_key_usage, ''digitalSignature,keyEncipherment''),
           (NID_subject_key_identifier, ''hash''),
           (NID_authority_key_identifier, ''issuer:always,keyid:always'')]
      | PROFILE_UNKNOWN \<Rightarrow> [])"

text \<open>The extensions of a certificate other than the extended key usage, under either
  object.\<close>

definition without_extended_key_usage :: "x509_extension list \<Rightarrow> x509_extension list" where
  "without_extended_key_usage exts =
     filter (\<lambda>(n, v). n \<noteq> NID_anyExtendedKeyUsage \<and> n \<noteq> NID_ext_key_usage) exts"

text \<open>
  The library takes the authority key identifier from the subject key identifier of the
  issuer's certificate. It builds a list of requests when it builds each of them for
  every subject, the authority key identifier for every issuer that has a subject key
  identifier.
\<close>

definition has_skid :: "x509 option \<Rightarrow> bool" where
  "has_skid issuer_cert =
     (case issuer_cert of
        None \<Rightarrow> False
      | Some c \<Rightarrow> NID_subject_key_identifier \<in> fst ` set (extensions (cert_info c)))"

definition library_builds :: "env \<Rightarrow> x509_extension list \<Rightarrow> bool" where
  "library_builds e reqs \<longleftrightarrow>
     (\<forall>issuer_cert x n v.
        (n, v) \<in> set reqs \<longrightarrow>
        (n = NID_authority_key_identifier \<longrightarrow> has_skid issuer_cert) \<longrightarrow>
        X509V3_EXT_conf_nid e issuer_cert x n v)"

subsection \<open>A small directory to run the program on\<close>

text \<open>
  The answers of the library in the examples. A country code has two characters, an
  organisation, unit or common name up to 64 and a locality or state up to 128. There
  is no extension for the object \<open>NID_anyExtendedKeyUsage\<close>; the authority key
  identifier needs a subject key identifier in the issuer's certificate; a subject
  alternative name is a list of items \<open>DNS:\<close> or \<open>email:\<close> with a value, separated by
  commas and free of white space; the other requests are built. An RSA key signs a
  SHA-256 digest from 496 bits on and a SHA-1 digest from 368 bits on. Key generation
  delivers the key material \<open>k\<close> and every file can be written.
\<close>

definition example_name_entry :: "string \<Rightarrow> string \<Rightarrow> bool" where
  "example_name_entry field val =
     (if field = ''C'' then length val = 2
      else if field = ''L'' \<or> field = ''ST'' then 1 \<le> length val \<and> length val \<le> 128
      else 1 \<le> length val \<and> length val \<le> 64)"

fun split_commas :: "string \<Rightarrow> string list" where
  "split_commas [] = [[]]"
| "split_commas (ch # cs) =
     (if ch = CHR '','' then [] # split_commas cs
      else (case split_commas cs of
              [] \<Rightarrow> [[ch]]
            | item # items \<Rightarrow> (ch # item) # items))"

definition example_san_item :: "string \<Rightarrow> bool" where
  "example_san_item item \<longleftrightarrow>
     filter isspace item = []
     \<and> ((take 4 item = ''DNS:'' \<and> 4 < length item)
        \<or> (take 6 item = ''email:'' \<and> 6 < length item))"

definition example_ext_conf :: "x509 option \<Rightarrow> x509 \<Rightarrow> nid \<Rightarrow> string \<Rightarrow> bool" where
  "example_ext_conf issuer_cert x n v =
     (case n of
        NID_anyExtendedKeyUsage \<Rightarrow> False
      | NID_authority_key_identifier \<Rightarrow> has_skid issuer_cert
      | NID_subject_alt_name \<Rightarrow> list_all example_san_item (split_commas v)
      | _ \<Rightarrow> True)"

definition example_sign :: "evp_pkey \<Rightarrow> evp_md \<Rightarrow> bool" where
  "example_sign k md =
     (case k of
        EVP_PKEY_RSA r \<Rightarrow> (case md of EVP_sha1 \<Rightarrow> 368 \<le> fst r | EVP_sha256 \<Rightarrow> 496 \<le> fst r)
      | EVP_PKEY_EC m \<Rightarrow> True)"

definition example_env :: "nat \<Rightarrow> env" where
  "example_env k =
     \<lparr>urandom = (\<lambda>i. of_nat i), time_now = 1000,
      RSA_generate_key = (\<lambda>bits. if 16 \<le> bits then Some (bits, k) else None),
      EC_KEY_new_by_curve_name = (\<lambda>name. if name = ''prime256v1'' then Some k else None),
      X509_NAME_add_entry = example_name_entry,
      X509V3_EXT_conf_nid = example_ext_conf,
      ASN1_item_sign = example_sign,
      fopen_wb = (\<lambda>filename. True)\<rparr>"

text \<open>
  A directory that holds the authority \<open>root\<close> with its key, two certificates issued by
  it and a file that is not a certificate. The certificates carry a subject key
  identifier, as every certificate that the program issues does.
\<close>

definition example_cert :: "int \<Rightarrow> string \<Rightarrow> nat \<Rightarrow> x509" where
  "example_cert sn cn k =
     \<lparr>cert_info =
        \<lparr>version = 2, serialNumber = sn, notBefore = 0, notAfter = 315360000,
         subject = [(''O'', ''Home''), (''CN'', cn)],
         issuer = [(''O'', ''Home''), (''CN'', ''root'')],
         pubkey = Some (EVP_PKEY_RSA (2048, k)),
         extensions = [(NID_subject_key_identifier, ''hash'')]\<rparr>,
      signature = None\<rparr>"

definition example_world :: world where
  "example_world =
     \<lparr>files =
        [''root.crt'' \<mapsto> PEM_X509 (example_cert 1 ''root'' 1),
         ''root.key'' \<mapsto> PEM_PrivateKey (EVP_PKEY_RSA (2048, 1)),
         ''alice.crt'' \<mapsto> PEM_X509 (example_cert 5 ''alice'' 2),
         ''bob.crt'' \<mapsto> PEM_X509 (example_cert 3 ''bob'' 3),
         ''junk.crt'' \<mapsto> Not_PEM],
      stderr = [], keys_generated = 0\<rparr>"

definition example_request :: "profile \<Rightarrow> string \<Rightarrow> string \<Rightarrow> certinfo" where
  "example_request p cn san = certinfo_init\<lparr>ci_cn := cn, ci_profile := p, ci_san := san\<rparr>"

text \<open>The same directory after \<open>alice\<close> has been revoked, and after the key of \<open>root\<close>
  has then been removed.\<close>

definition example_world_revoked :: world where
  "example_world_revoked = snd (revoke_cert (example_env 4) ''root'' ''alice'' example_world)"


text \<open>
  Further directories: one with an authority \<open>plain\<close> whose certificate has no subject
  key identifier; one with an authority \<open>weak\<close> whose RSA key has 384 bits; one in which
  \<open>bob\<close>, serial 3, has been revoked and which holds a certificate \<open>eve\<close> with the
  serial -7; and one in which the list of \<open>root\<close> carries no number.
\<close>

definition example_world_plain :: world where
  "example_world_plain =
     example_world\<lparr>files := (files example_world)
       (''plain.crt'' \<mapsto>
          PEM_X509 \<lparr>cert_info =
                      \<lparr>version = 2, serialNumber = 7, notBefore = 0, notAfter = 315360000,
                       subject = [(''O'', ''Home''), (''CN'', ''plain'')],
                       issuer = [(''O'', ''Home''), (''CN'', ''plain'')],
                       pubkey = Some (EVP_PKEY_RSA (2048, 7)), extensions = []\<rparr>,
                    signature = None\<rparr>,
        ''plain.key'' \<mapsto> PEM_PrivateKey (EVP_PKEY_RSA (2048, 7)))\<rparr>"

definition example_world_weak :: world where
  "example_world_weak =
     example_world\<lparr>files := (files example_world)
       (''weak.crt'' \<mapsto>
          PEM_X509 \<lparr>cert_info =
                      \<lparr>version = 2, serialNumber = 8, notBefore = 0, notAfter = 315360000,
                       subject = [(''O'', ''Home''), (''CN'', ''weak'')],
                       issuer = [(''O'', ''Home''), (''CN'', ''weak'')],
                       pubkey = Some (EVP_PKEY_RSA (384, 8)),
                       extensions = [(NID_subject_key_identifier, ''hash'')]\<rparr>,
                    signature = None\<rparr>,
        ''weak.key'' \<mapsto> PEM_PrivateKey (EVP_PKEY_RSA (384, 8)))\<rparr>"

definition example_world_eve :: world where
  "example_world_eve =
     (snd (revoke_cert (example_env 4) ''root'' ''bob'' example_world))
       \<lparr>files := (files (snd (revoke_cert (example_env 4) ''root'' ''bob'' example_world)))
          (''eve.crt'' \<mapsto> PEM_X509 (example_cert (- 7) ''eve'' 5))\<rparr>"

definition example_world_unnumbered :: world where
  "example_world_unnumbered =
     example_world\<lparr>files := (files example_world)
       (''root.crl'' \<mapsto>
          PEM_X509_CRL
            \<lparr>crl = \<lparr>crl_version = 0, crl_issuer = [(''O'', ''Home''), (''CN'', ''root'')],
                    lastUpdate = 0, nextUpdate = 31536000,
                    revoked = [\<lparr>rev_serialNumber = 3, revocationDate = 0, reason = 0\<rparr>],
                    crl_number = None\<rparr>,
             crl_signature = None\<rparr>)\<rparr>"


section \<open>Serial numbers\<close>

lemma BN_bin2bn_foldl:
  "foldl (\<lambda>a b. a * 256 + uint b) a (bs :: 8 word list)
     = a * 256 ^ length bs + foldl (\<lambda>a b. a * 256 + uint b) 0 bs"
proof (induction bs arbitrary: a)
  case Nil
  show ?case by simp
next
  case (Cons b bs)
  have "foldl (\<lambda>a b. a * 256 + uint b) a (b # bs)
          = (a * 256 + uint b) * 256 ^ length bs + foldl (\<lambda>a b. a * 256 + uint b) 0 bs"
    using Cons.IH [of "a * 256 + uint b"] by simp
  moreover have "foldl (\<lambda>a b. a * 256 + uint b) 0 (b # bs)
          = uint b * 256 ^ length bs + foldl (\<lambda>a b. a * 256 + uint b) 0 bs"
    using Cons.IH [of "uint b"] by simp
  ultimately show ?case by (simp add: algebra_simps)
qed

lemma BN_bin2bn_Cons:
  "BN_bin2bn (b # bs) = uint b * 256 ^ length bs + BN_bin2bn bs"
  unfolding BN_bin2bn_def using BN_bin2bn_foldl [of "uint b" bs] by simp

lemma BN_bin2bn_less: "0 \<le> BN_bin2bn bs \<and> BN_bin2bn bs < 256 ^ length bs"
proof (induction bs)
  case Nil
  show ?case by (simp add: BN_bin2bn_def)
next
  case (Cons b bs)
  have lt: "uint b < 256" using unsigned_less [of b, where ?'a = int] by simp
  have ge: "0 \<le> uint b" by simp
  have "uint b * 256 ^ length bs + BN_bin2bn bs < (uint b + 1) * 256 ^ length bs"
    using Cons.IH by (simp add: algebra_simps)
  also have "\<dots> \<le> 256 * 256 ^ length bs"
    using lt by (intro mult_right_mono) simp_all
  finally have "uint b * 256 ^ length bs + BN_bin2bn bs < 256 * 256 ^ length bs" .
  moreover have "0 \<le> uint b * 256 ^ length bs + BN_bin2bn bs"
    using Cons.IH ge by simp
  ultimately show ?case by (simp add: BN_bin2bn_Cons)
qed

lemma c_serial_eq:
  "c_serial e = 0x2c # 0xca # map (urandom e) [2 ..< 16]"
proof -
  have "[0 ..< 16] = 0 # 1 # [2 ..< 16]"
    by (simp add: upt_conv_Cons)
  then show ?thesis
    by (simp add: c_serial_def SERIAL_SZ_def)
qed

text \<open>
  C7. Every serial number allocated by \<^verbatim>\<open>set_serial128\<close> is the big-endian value of 16
  bytes, of which the first two are the fixed tag \<open>0x2c 0xca\<close> and the other fourteen
  are bytes 2 to 15 of what was read from the random source. The number therefore lies
  between \<open>0x2cca * 2^112\<close> and \<open>0x2ccb * 2^112\<close>: it takes exactly 16 bytes and starts
  with the tag, whatever the random source delivers.
\<close>

theorem serial_tagged:
  "length (c_serial e) = 16
   \<and> c_serial e ! 0 = 0x2c \<and> c_serial e ! 1 = 0xca
   \<and> drop 2 (c_serial e) = map (urandom e) [2 ..< 16]
   \<and> serialNumber (cert_info (snd (set_serial128 e x))) = BN_bin2bn (c_serial e)
   \<and> 0x2cca * 2 ^ 112 \<le> serialNumber (cert_info (snd (set_serial128 e x)))
   \<and> serialNumber (cert_info (snd (set_serial128 e x))) < 0x2ccb * 2 ^ 112"
proof -
  let ?rest = "map (urandom e) [2 ..< 16]"
  have len: "length ?rest = 14" by simp
  have val: "BN_bin2bn (c_serial e) = 0x2cca * 2 ^ 112 + BN_bin2bn ?rest"
    by (simp add: c_serial_eq BN_bin2bn_Cons)
  have "0 \<le> BN_bin2bn ?rest \<and> BN_bin2bn ?rest < 256 ^ 14"
    using BN_bin2bn_less [of ?rest] by simp
  then have bound: "0 \<le> BN_bin2bn ?rest" "BN_bin2bn ?rest < 2 ^ 112" by simp_all
  have ser: "serialNumber (cert_info (snd (set_serial128 e x))) = BN_bin2bn (c_serial e)"
    by (simp add: set_serial128_def X509_set_serialNumber_def)
  show ?thesis
    using val bound by (simp add: ser) (simp add: c_serial_eq)
qed

section \<open>Issuing certificates\<close>


lemma load_ca_Some:
  assumes "load_ca n w = (Inr (Some ca), w')"
  shows "w' = w \<and> length n + 4 \<le> FIELD_SZ
    \<and> (\<exists>x k. cert ca = Some x \<and> key ca = Some k \<and> stored_cert w n = Some x
          \<and> files w (n @ ''.key'') = Some (PEM_PrivateKey k)
          \<and> pubkey (cert_info x) = Some k)"
  using assms
  by (auto simp: load_ca_def fprintf_stderr_def Let_def strfits_def stored_cert_def
        X509_check_private_key_def PEM_read_RSAPrivateKey_def
      split: option.splits if_splits file_content.splits evp_pkey.splits)

lemma set_extension_subset:
  "set (extensions (cert_info (snd (set_extension e i x n v))))
     \<subseteq> insert (n, v) (set (extensions (cert_info x)))"
  by (auto simp: set_extension_def X509_add_ext_def)

lemma set_extension_rest:
  "pubkey (cert_info (snd (set_extension e i x n v))) = pubkey (cert_info x)"
  "subject (cert_info (snd (set_extension e i x n v))) = subject (cert_info x)"
  "signature (snd (set_extension e i x n v)) = signature x"
  by (simp_all add: set_extension_def X509_add_ext_def)

lemma set_profile_extensions_subset:
  "set (without_extended_key_usage (extensions (cert_info (set_profile_extensions e ci ca x0))))
     \<subseteq> set (without_extended_key_usage (extensions (cert_info x0)))
        \<union> set (amended_template (ci_profile ci) (ci_san ci))"
  by (cases "ci_profile ci")
     (auto simp: set_profile_extensions_def amended_template_def san_request_def Let_def
        set_extension_def X509_add_ext_def without_extended_key_usage_def)

lemma set_profile_extensions_built:
  assumes lib: "library_builds e (amended_template (ci_profile ci) (ci_san ci))"
    and ca: "ci_profile ci = PROFILE_ROOT_CA \<or> has_skid (cert ca)"
  shows "without_extended_key_usage (extensions (cert_info (set_profile_extensions e ci ca x0)))
     = without_extended_key_usage (extensions (cert_info x0))
       @ amended_template (ci_profile ci) (ci_san ci)"
proof -
  have b: "\<And>i x n v. (n, v) \<in> set (amended_template (ci_profile ci) (ci_san ci))
      \<Longrightarrow> n \<noteq> NID_authority_key_identifier \<Longrightarrow> X509V3_EXT_conf_nid e i x n v"
    using lib by (simp add: library_builds_def)
  have a: "\<And>i x n v. (n, v) \<in> set (amended_template (ci_profile ci) (ci_san ci))
      \<Longrightarrow> has_skid i \<Longrightarrow> X509V3_EXT_conf_nid e i x n v"
    using lib by (simp add: library_builds_def)
  show ?thesis
  proof (cases "ci_profile ci")
    case PROFILE_UNKNOWN
    then show ?thesis by (simp add: set_profile_extensions_def amended_template_def)
  next
    case PROFILE_ROOT_CA
    with a b show ?thesis
      by (simp add: set_profile_extensions_def amended_template_def Let_def
            set_extension_def X509_add_ext_def without_extended_key_usage_def has_skid_def)
  next
    case PROFILE_SUB_CA
    with a b ca show ?thesis
      by (simp add: set_profile_extensions_def amended_template_def Let_def
            set_extension_def X509_add_ext_def without_extended_key_usage_def)
  next
    case PROFILE_SERVER
    with a b ca show ?thesis
      by (simp add: set_profile_extensions_def amended_template_def san_request_def Let_def
            set_extension_def X509_add_ext_def without_extended_key_usage_def)
  next
    case PROFILE_CLIENT
    with a b ca show ?thesis
      by (simp add: set_profile_extensions_def amended_template_def san_request_def Let_def
            set_extension_def X509_add_ext_def without_extended_key_usage_def)
  next
    case PROFILE_WWW
    with a b ca show ?thesis
      by (simp add: set_profile_extensions_def amended_template_def san_request_def Let_def
            set_extension_def X509_add_ext_def without_extended_key_usage_def)
  qed
qed

lemma set_profile_extensions_rest:
  "pubkey (cert_info (set_profile_extensions e ci ca x0)) = pubkey (cert_info x0)"
  "subject (cert_info (set_profile_extensions e ci ca x0)) = subject (cert_info x0)"
  "signature (set_profile_extensions e ci ca x0) = signature x0"
  by (cases "ci_profile ci";
      simp add: set_profile_extensions_def Let_def set_extension_rest)+

lemma assign_fields_fields:
  "extensions (cert_info (assign_fields e ci pkey)) = []"
  "pubkey (cert_info (assign_fields e ci pkey)) = Some pkey"
  "signature (assign_fields e ci pkey) = None"
  by (simp_all add: assign_fields_def Let_def X509_new_def X509_set_version_def
        set_serial128_def X509_set_serialNumber_def X509_set_notBefore_def
        X509_set_notAfter_def X509_set_pubkey_def X509_set_subject_name_def)

lemma load_signing_ca_Some:
  assumes "load_signing_ca ci w = (Inr (Some (ca, ci')), w1)"
  shows "w1 = w \<and> ci_profile ci' = ci_profile ci \<and> ci_san ci' = ci_san ci
    \<and> ci_cn ci' = ci_cn ci
    \<and> (ci_profile ci \<noteq> PROFILE_ROOT_CA \<longrightarrow> load_ca (ci_signing_ca ci) w = (Inr (Some ca), w))"
  using assms
  by (auto simp: load_signing_ca_def split: if_splits prod.splits sum.splits option.splits
           dest: load_ca_Some)

lemma generate_key_pair_world:
  "files (snd (generate_key_pair e ci w)) = files w"
  by (simp add: generate_key_pair_def fprintf_stderr_def split: option.splits)

lemma save_results_Inr:
  assumes "fst (save_results e ci pkey x w) = Inr r"
  shows "r = 0 \<and> files (snd (save_results e ci pkey x w))
           = (files w)(ci_cn ci @ ''.key'' \<mapsto> PEM_PrivateKey pkey, ci_cn ci @ ''.crt'' \<mapsto> PEM_X509 x)"
  using assms by (auto simp: save_results_def Let_def split: if_splits)

lemma build_identity_Inr0:
  assumes "fst (build_identity e ci w) = Inr 0"
  shows "\<exists>ou ca ci' pkey x.
      profile_ou (ci_profile ci) = Some ou
    \<and> load_signing_ca (ci\<lparr>ci_ou := ou\<rparr>) w = (Inr (Some (ca, ci')), w)
    \<and> fst (generate_key_pair e ci' w) = Inr (Some pkey)
    \<and> set_issuer_and_sign e ci' ca pkey
         (set_profile_extensions e ci' ca (assign_fields e ci' pkey)) = Inr x
    \<and> files (snd (snd (build_identity e ci w)))
         = (files w)(ci_cn ci @ ''.key'' \<mapsto> PEM_PrivateKey pkey, ci_cn ci @ ''.crt'' \<mapsto> PEM_X509 x)"
proof -
  from assms obtain ou where ou: "profile_ou (ci_profile ci) = Some ou"
    by (auto simp: build_identity_def split: if_splits option.splits)
  let ?ci = "ci\<lparr>ci_ou := ou\<rparr>"
  from assms ou obtain ca ci' w1 where ld: "load_signing_ca ?ci w = (Inr (Some (ca, ci')), w1)"
    by (auto simp: build_identity_def Let_def split: if_splits option.splits prod.splits sum.splits)
  have w1: "w1 = w" and cn: "ci_cn ci' = ci_cn ci"
    using load_signing_ca_Some [OF ld] by simp_all
  from assms ou ld obtain pkey w2 where kg: "generate_key_pair e ci' w = (Inr (Some pkey), w2)"
    by (auto simp: build_identity_def Let_def w1 split: if_splits option.splits prod.splits sum.splits)
  from assms ou ld kg obtain x where sg: "set_issuer_and_sign e ci' ca pkey
         (set_profile_extensions e ci' ca (assign_fields e ci' pkey)) = Inr x"
    by (auto simp: build_identity_def Let_def w1 split: if_splits option.splits prod.splits sum.splits)
  from assms ou ld kg sg have sv: "fst (save_results e ci' pkey x w2) = Inr 0"
    and res: "snd (snd (build_identity e ci w)) = snd (save_results e ci' pkey x w2)"
    by (auto simp: build_identity_def Let_def w1 split: if_splits option.splits prod.splits sum.splits)
  have "files w2 = files w"
    using generate_key_pair_world [of e ci' w] kg by simp
  with save_results_Inr [OF sv] res cn ou ld kg sg show ?thesis
    by (simp add: w1)
qed

lemma set_issuer_and_sign_Inr:
  assumes "set_issuer_and_sign e ci ca pkey x0 = Inr x" and "signature x0 = None"
  shows "extensions (cert_info x) = extensions (cert_info x0)
    \<and> subject (cert_info x) = subject (cert_info x0)
    \<and> pubkey (cert_info x) = pubkey (cert_info x0)
    \<and> (if ci_profile ci = PROFILE_ROOT_CA
        then issuer (cert_info x) = subject (cert_info x0)
           \<and> signature x
               = (if ASN1_item_sign e pkey EVP_sha256
                  then Some \<lparr>sig_key = pkey, sig_md = EVP_sha256, sig_over = cert_info x\<rparr>
                  else None)
        else \<exists>cc ck. cert ca = Some cc \<and> key ca = Some ck
               \<and> issuer (cert_info x) = subject (cert_info cc)
               \<and> signature x
                   = (if ASN1_item_sign e ck EVP_sha256
                      then Some \<lparr>sig_key = ck, sig_md = EVP_sha256, sig_over = cert_info x\<rparr>
                      else None))"
  using assms
  by (auto simp: set_issuer_and_sign_def X509_sign_def X509_set_issuer_name_def
        X509_get_subject_name_def split: if_splits option.splits)


text \<open>
  C1, amended. Whenever \<^verbatim>\<open>build_identity\<close> returns 0 it has stored a certificate under the
  common name. Leaving the extended key usage aside, that certificate has no extension
  outside the amended table of its profile; and when the library builds the requests of
  that table and, for a profile other than the root, the certificate of the signing
  authority has a subject key identifier, its extensions are exactly the table, in
  order: basic constraints, key usage, subject and authority key identifier for the two
  authority profiles; for the server and web-server profiles also the Netscape
  certificate type \<open>server\<close>; and for the three leaf profiles the subject alternative name
  first when one was given.
\<close>

theorem extensions_follow_amended_template:
  assumes "fst (build_identity e ci w) = Inr 0"
  shows "stored_cert (snd (snd (build_identity e ci w))) (ci_cn ci) \<noteq> None
    \<and> set (without_extended_key_usage
             (stored_extensions (snd (snd (build_identity e ci w))) (ci_cn ci)))
        \<subseteq> set (amended_template (ci_profile ci) (ci_san ci))
    \<and> (library_builds e (amended_template (ci_profile ci) (ci_san ci))
         \<and> (ci_profile ci = PROFILE_ROOT_CA \<or> has_skid (stored_cert w (ci_signing_ca ci)))
       \<longrightarrow> without_extended_key_usage
             (stored_extensions (snd (snd (build_identity e ci w))) (ci_cn ci))
           = amended_template (ci_profile ci) (ci_san ci))"
proof -
  from build_identity_Inr0 [OF assms] obtain ou ca ci' pkey x where
    ld: "load_signing_ca (ci\<lparr>ci_ou := ou\<rparr>) w = (Inr (Some (ca, ci')), w)"
    and sg: "set_issuer_and_sign e ci' ca pkey
         (set_profile_extensions e ci' ca (assign_fields e ci' pkey)) = Inr x"
    and fs: "files (snd (snd (build_identity e ci w)))
         = (files w)(ci_cn ci @ ''.key'' \<mapsto> PEM_PrivateKey pkey, ci_cn ci @ ''.crt'' \<mapsto> PEM_X509 x)"
    by blast
  have same: "ci_profile ci' = ci_profile ci" "ci_san ci' = ci_san ci"
    using load_signing_ca_Some [OF ld] by simp_all
  have st: "stored_cert (snd (snd (build_identity e ci w))) (ci_cn ci) = Some x"
    by (simp add: stored_cert_def fs PEM_read_X509_def)
  have ex: "extensions (cert_info x)
      = extensions (cert_info (set_profile_extensions e ci' ca (assign_fields e ci' pkey)))"
    using set_issuer_and_sign_Inr [OF sg]
    by (simp add: set_profile_extensions_rest assign_fields_fields)
  have se: "stored_extensions (snd (snd (build_identity e ci w))) (ci_cn ci)
      = extensions (cert_info x)"
    by (simp add: stored_extensions_def st)
  have sub: "set (without_extended_key_usage (extensions (cert_info x)))
      \<subseteq> set (amended_template (ci_profile ci) (ci_san ci))"
    using set_profile_extensions_subset [of e ci' ca "assign_fields e ci' pkey"]
    by (simp add: ex same assign_fields_fields without_extended_key_usage_def)
  have exact: "without_extended_key_usage (extensions (cert_info x))
      = amended_template (ci_profile ci) (ci_san ci)"
    if lib: "library_builds e (amended_template (ci_profile ci) (ci_san ci))"
      and iss: "ci_profile ci = PROFILE_ROOT_CA \<or> has_skid (stored_cert w (ci_signing_ca ci))"
  proof -
    have "ci_profile ci' = PROFILE_ROOT_CA \<or> has_skid (cert ca)"
    proof (cases "ci_profile ci = PROFILE_ROOT_CA")
      case True
      then show ?thesis by (simp add: same)
    next
      case False
      with load_signing_ca_Some [OF ld]
      have "load_ca (ci_signing_ca ci) w = (Inr (Some ca), w)" by simp
      from load_ca_Some [OF this] obtain cc where
        "cert ca = Some cc" "stored_cert w (ci_signing_ca ci) = Some cc" by blast
      with False iss show ?thesis by simp
    qed
    from set_profile_extensions_built [of e ci' ca "assign_fields e ci' pkey", OF _ this] lib
    show ?thesis
      by (simp add: ex same assign_fields_fields without_extended_key_usage_def)
  qed
  from st sub exact show ?thesis by (simp add: se)
qed

text \<open>A server certificate for \<open>www1\<close> with one DNS name, signed by \<open>root\<close>.\<close>

theorem extensions_follow_amended_template_witness:
  "fst (build_identity (example_env 4)
          (example_request PROFILE_SERVER ''www1'' ''DNS:example.com'') example_world) = Inr 0
   \<and> library_builds (example_env 4) (amended_template PROFILE_SERVER ''DNS:example.com'')
   \<and> has_skid (stored_cert example_world ''root'')
   \<and> without_extended_key_usage (stored_extensions
        (snd (snd (build_identity (example_env 4)
          (example_request PROFILE_SERVER ''www1'' ''DNS:example.com'') example_world))) ''www1'')
      = [(NID_subject_alt_name, ''DNS:example.com''),
         (NID_basic_constraints, ''CA:FALSE''),
         (NID_netscape_cert_type, ''server''),
         (NID_key_usage, ''digitalSignature,keyEncipherment''),
         (NID_subject_key_identifier, ''hash''),
         (NID_authority_key_identifier, ''issuer:always,keyid:always'')]"
proof -
  have h: "fst (build_identity (example_env 4)
          (example_request PROFILE_SERVER ''www1'' ''DNS:example.com'') example_world) = Inr 0"
    by code_simp
  have f: "ci_cn (example_request PROFILE_SERVER ''www1'' ''DNS:example.com'') = ''www1''"
    "ci_profile (example_request PROFILE_SERVER ''www1'' ''DNS:example.com'') = PROFILE_SERVER"
    "ci_san (example_request PROFILE_SERVER ''www1'' ''DNS:example.com'') = ''DNS:example.com''"
    "ci_signing_ca (example_request PROFILE_SERVER ''www1'' ''DNS:example.com'') = ''root''"
    by (simp_all add: example_request_def certinfo_init_def)
  have t: "amended_template PROFILE_SERVER ''DNS:example.com''
      = [(NID_subject_alt_name, ''DNS:example.com''),
         (NID_basic_constraints, ''CA:FALSE''),
         (NID_netscape_cert_type, ''server''),
         (NID_key_usage, ''digitalSignature,keyEncipherment''),
         (NID_subject_key_identifier, ''hash''),
         (NID_authority_key_identifier, ''issuer:always,keyid:always'')]"
    by (simp add: amended_template_def san_request_def)
  have lib: "library_builds (example_env 4) (amended_template PROFILE_SERVER ''DNS:example.com'')"
    unfolding t
    by (auto simp: library_builds_def example_env_def example_ext_conf_def
          example_san_item_def isspace_def)
  have sk: "has_skid (stored_cert example_world ''root'')"
    by code_simp
  note r = extensions_follow_amended_template [OF h, unfolded f]
  from r lib sk have "without_extended_key_usage (stored_extensions
        (snd (snd (build_identity (example_env 4)
          (example_request PROFILE_SERVER ''www1'' ''DNS:example.com'') example_world))) ''www1'')
      = amended_template PROFILE_SERVER ''DNS:example.com''"
    by blast
  with h lib sk show ?thesis by (simp only: t simp_thms)
qed

text \<open>
  C1 as stated fails. The certificate issued for the server \<open>www1\<close> with one DNS name
  carries the Netscape certificate type and the subject alternative name, which the
  server template of the specification does not contain. It carries no extended key
  usage, which the template has: lines 284, 296 and 308 ask for it under the object
  \<^verbatim>\<open>NID_anyExtendedKeyUsage\<close>, for which the library has no extension, and the result of
  \<^verbatim>\<open>set_extension\<close> is dropped. And the certificate issued under the authority \<open>plain\<close>,
  whose own certificate has no subject key identifier, lacks the authority key
  identifier of the template.
\<close>

theorem server_template_counterexample:
  "fst (build_identity (example_env 4)
          (example_request PROFILE_SERVER ''www1'' ''DNS:example.com'') example_world) = Inr 0
   \<and> NID_netscape_cert_type
       \<in> fst ` set (stored_extensions
            (snd (snd (build_identity (example_env 4)
               (example_request PROFILE_SERVER ''www1'' ''DNS:example.com'') example_world)))
            ''www1'')
   \<and> NID_netscape_cert_type \<notin> spec_template PROFILE_SERVER
   \<and> NID_subject_alt_name
       \<in> fst ` set (stored_extensions
            (snd (snd (build_identity (example_env 4)
               (example_request PROFILE_SERVER ''www1'' ''DNS:example.com'') example_world)))
            ''www1'')
   \<and> NID_subject_alt_name \<notin> spec_template PROFILE_SERVER
   \<and> NID_ext_key_usage \<in> spec_template PROFILE_SERVER
   \<and> NID_ext_key_usage
       \<notin> fst ` set (stored_extensions
            (snd (snd (build_identity (example_env 4)
               (example_request PROFILE_SERVER ''www1'' ''DNS:example.com'') example_world)))
            ''www1'')
   \<and> NID_anyExtendedKeyUsage
       \<notin> fst ` set (stored_extensions
            (snd (snd (build_identity (example_env 4)
               (example_request PROFILE_SERVER ''www1'' ''DNS:example.com'') example_world)))
            ''www1'')
   \<and> fst (build_identity (example_env 4)
          ((example_request PROFILE_SERVER ''www2'' [])\<lparr>ci_signing_ca := ''plain''\<rparr>)
          example_world_plain) = Inr 0
   \<and> NID_authority_key_identifier \<in> spec_template PROFILE_SERVER
   \<and> NID_authority_key_identifier
       \<notin> fst ` set (stored_extensions
            (snd (snd (build_identity (example_env 4)
               ((example_request PROFILE_SERVER ''www2'' [])\<lparr>ci_signing_ca := ''plain''\<rparr>)
               example_world_plain)))
            ''www2'')"
  by code_simp

text \<open>
  C5. When a \<^verbatim>\<open>.crt\<close> or a \<^verbatim>\<open>.key\<close> file already exists under the requested common name,
  \<^verbatim>\<open>build_identity\<close> returns -1 with the diagnostic that the identity already exists,
  leaves every file as it was, and has not called a key generator.
\<close>

theorem identity_already_exists:
  assumes "length (ci_cn ci) \<le> FIELD_SZ"
    and "files w (ci_cn ci @ ''.crt'') \<noteq> None \<or> files w (ci_cn ci @ ''.key'') \<noteq> None"
  shows "fst (build_identity e ci w) = Inr (- 1)
    \<and> files (snd (snd (build_identity e ci w))) = files w
    \<and> keys_generated (snd (snd (build_identity e ci w))) = keys_generated w
    \<and> stderr (snd (snd (build_identity e ci w)))
        = stderr w @ [already_exists (ci_cn ci @
            (if files w (ci_cn ci @ ''.crt'') \<noteq> None then ''.crt'' else ''.key''))]"
  using assms
  by (auto simp: build_identity_def strfits_def fprintf_stderr_def)

text \<open>The directory already holds \<open>alice.crt\<close>.\<close>

theorem identity_already_exists_witness:
  "length (ci_cn (example_request PROFILE_SERVER ''alice'' [])) \<le> FIELD_SZ
   \<and> files example_world (ci_cn (example_request PROFILE_SERVER ''alice'' []) @ ''.crt'') \<noteq> None
   \<and> fst (build_identity (example_env 4) (example_request PROFILE_SERVER ''alice'' [])
        example_world) = Inr (- 1)
   \<and> files (snd (snd (build_identity (example_env 4) (example_request PROFILE_SERVER ''alice'' [])
        example_world))) = files example_world
   \<and> keys_generated (snd (snd (build_identity (example_env 4)
        (example_request PROFILE_SERVER ''alice'' []) example_world))) = 0"
proof -
  have h1: "length (ci_cn (example_request PROFILE_SERVER ''alice'' [])) \<le> FIELD_SZ"
    by (simp add: example_request_def FIELD_SZ_def)
  have h2: "files example_world (ci_cn (example_request PROFILE_SERVER ''alice'' []) @ ''.crt'') \<noteq> None"
    by (simp add: example_request_def example_world_def)
  from identity_already_exists [OF h1 disjI1 [OF h2], of "example_env 4"] h1 h2 show ?thesis
    by (simp add: example_world_def)
qed



text \<open>
  What holds of the issuer and the signature whenever \<^verbatim>\<open>build_identity\<close> returns 0: the
  issuer is the certificate's own subject for the root profile and the subject of the
  signing authority's certificate otherwise, and the certificate carries a SHA-256
  signature by its own key, or by the authority's key, that verifies against that key
  exactly when the library signed; else it carries none.
\<close>

lemma issuer_and_signature_if_signed:
  assumes "fst (build_identity e ci w) = Inr 0"
  shows "\<exists>x k. stored_cert (snd (snd (build_identity e ci w))) (ci_cn ci) = Some x
      \<and> (if ci_profile ci = PROFILE_ROOT_CA
         then issuer (cert_info x) = subject (cert_info x) \<and> pubkey (cert_info x) = Some k
         else \<exists>ca_cert.
                stored_cert w (ci_signing_ca ci) = Some ca_cert
              \<and> files w (ci_signing_ca ci @ ''.key'') = Some (PEM_PrivateKey k)
              \<and> pubkey (cert_info ca_cert) = Some k
              \<and> issuer (cert_info x) = subject (cert_info ca_cert))
      \<and> (if ASN1_item_sign e k EVP_sha256
         then \<exists>s. signature x = Some s \<and> sig_md s = EVP_sha256 \<and> sig_key s = k
                \<and> X509_verify x k
         else signature x = None)"
proof -
  from build_identity_Inr0 [OF assms] obtain ou ca ci' pkey x where
    ld: "load_signing_ca (ci\<lparr>ci_ou := ou\<rparr>) w = (Inr (Some (ca, ci')), w)"
    and sg: "set_issuer_and_sign e ci' ca pkey
         (set_profile_extensions e ci' ca (assign_fields e ci' pkey)) = Inr x"
    and fs: "files (snd (snd (build_identity e ci w)))
         = (files w)(ci_cn ci @ ''.key'' \<mapsto> PEM_PrivateKey pkey, ci_cn ci @ ''.crt'' \<mapsto> PEM_X509 x)"
    by blast
  have prof: "ci_profile ci' = ci_profile ci"
    using load_signing_ca_Some [OF ld] by simp
  have st: "stored_cert (snd (snd (build_identity e ci w))) (ci_cn ci) = Some x"
    by (simp add: stored_cert_def fs PEM_read_X509_def)
  have unsigned: "signature (set_profile_extensions e ci' ca (assign_fields e ci' pkey)) = None"
    by (simp add: set_profile_extensions_rest assign_fields_fields)
  note si = set_issuer_and_sign_Inr [OF sg unsigned, unfolded prof set_profile_extensions_rest
      assign_fields_fields]
  show ?thesis
  proof (cases "ci_profile ci = PROFILE_ROOT_CA")
    case True
    with si have "issuer (cert_info x) = subject (cert_info x)"
      "pubkey (cert_info x) = Some pkey"
      "signature x = (if ASN1_item_sign e pkey EVP_sha256
                  then Some \<lparr>sig_key = pkey, sig_md = EVP_sha256, sig_over = cert_info x\<rparr>
                  else None)"
      by simp_all
    with True st show ?thesis
      by (intro exI [of _ x] exI [of _ pkey]) (simp add: X509_verify_def)
  next
    case False
    with si obtain cc ck where c: "cert ca = Some cc" "key ca = Some ck"
      "issuer (cert_info x) = subject (cert_info cc)"
      "signature x = (if ASN1_item_sign e ck EVP_sha256
                  then Some \<lparr>sig_key = ck, sig_md = EVP_sha256, sig_over = cert_info x\<rparr>
                  else None)"
      by auto
    from False load_signing_ca_Some [OF ld]
    have "load_ca (ci_signing_ca ci) w = (Inr (Some ca), w)" by simp
    from load_ca_Some [OF this] c
    have "stored_cert w (ci_signing_ca ci) = Some cc"
      "files w (ci_signing_ca ci @ ''.key'') = Some (PEM_PrivateKey ck)"
      "pubkey (cert_info cc) = Some ck"
      by auto
    with False c st show ?thesis
      by (intro exI [of _ x] exI [of _ ck]) (simp add: X509_verify_def)
  qed
qed

text \<open>
  C2. The claim fails on the source where the library cannot sign: the result of
  \<^verbatim>\<open>X509_sign\<close> is dropped at lines 322 and 326. A root authority requested with a
  384-bit RSA key, and a server certificate requested under the authority \<open>weak\<close>, whose
  RSA key has 384 bits, are both stored with return value 0 and without a signature, so
  that neither verifies against its signing key.
\<close>

theorem unsigned_certificate_issued:
  "fst (build_identity (example_env 4)
          ((example_request PROFILE_ROOT_CA ''tiny'' [])\<lparr>ci_rsa_keysz := 384\<rparr>)
          example_world) = Inr 0
   \<and> (case stored_cert (snd (snd (build_identity (example_env 4)
              ((example_request PROFILE_ROOT_CA ''tiny'' [])\<lparr>ci_rsa_keysz := 384\<rparr>)
              example_world))) ''tiny'' of
         None \<Rightarrow> False
       | Some x \<Rightarrow>
           pubkey (cert_info x) = Some (EVP_PKEY_RSA (384, 4)) \<and> signature x = None
           \<and> \<not> X509_verify x (EVP_PKEY_RSA (384, 4)))
   \<and> fst (build_identity (example_env 4)
          ((example_request PROFILE_SERVER ''www3'' [])\<lparr>ci_signing_ca := ''weak''\<rparr>)
          example_world_weak) = Inr 0
   \<and> (case stored_cert (snd (snd (build_identity (example_env 4)
              ((example_request PROFILE_SERVER ''www3'' [])\<lparr>ci_signing_ca := ''weak''\<rparr>)
              example_world_weak))) ''www3'' of
         None \<Rightarrow> False
       | Some x \<Rightarrow> signature x = None \<and> \<not> X509_verify x (EVP_PKEY_RSA (384, 8)))"
  by code_simp

lemma load_signing_ca_san:
  "load_signing_ca (ci\<lparr>ci_san := san, ci_ou := ou\<rparr>) w
     = (case load_signing_ca (ci\<lparr>ci_ou := ou\<rparr>) w of
          (Inr (Some (ca, ci')), w') \<Rightarrow> (Inr (Some (ca, ci'\<lparr>ci_san := san\<rparr>)), w')
        | r \<Rightarrow> r)"
  by (simp add: load_signing_ca_def split: prod.splits sum.splits option.splits)

lemma phases_san:
  "generate_key_pair e (ci\<lparr>ci_san := san\<rparr>) w = generate_key_pair e ci w"
  "assign_fields e (ci\<lparr>ci_san := san\<rparr>) pkey = assign_fields e ci pkey"
  "set_issuer_and_sign e (ci\<lparr>ci_san := san\<rparr>) ca pkey x = set_issuer_and_sign e ci ca pkey x"
  "save_results e (ci\<lparr>ci_san := san\<rparr>) pkey x w = save_results e ci pkey x w"
  by (simp_all add: generate_key_pair_def assign_fields_def set_issuer_and_sign_def
        save_results_def Let_def split: option.splits cong: if_cong)

lemma set_profile_extensions_san:
  assumes "ci_profile ci = PROFILE_ROOT_CA \<or> ci_profile ci = PROFILE_SUB_CA"
  shows "set_profile_extensions e (ci\<lparr>ci_san := san\<rparr>) ca x = set_profile_extensions e ci ca x"
  using assms by (auto simp: set_profile_extensions_def)

text \<open>
  C4, amended. For the two authority profiles the list of subject alternative names is
  ignored: the return value and everything written are the same whatever the list is,
  so a request is never rejected on its account, and a certificate that is issued
  carries no subject alternative name.
\<close>

theorem san_ignored_for_authorities:
  assumes "ci_profile ci = PROFILE_ROOT_CA \<or> ci_profile ci = PROFILE_SUB_CA"
  shows "fst (build_identity e (ci\<lparr>ci_san := san\<rparr>) w) = fst (build_identity e ci w)
    \<and> snd (snd (build_identity e (ci\<lparr>ci_san := san\<rparr>) w)) = snd (snd (build_identity e ci w))
    \<and> (fst (build_identity e (ci\<lparr>ci_san := san\<rparr>) w) = Inr 0 \<longrightarrow>
         NID_subject_alt_name
           \<notin> fst ` set (stored_extensions
                (snd (snd (build_identity e (ci\<lparr>ci_san := san\<rparr>) w))) (ci_cn ci)))"
proof -
  have prof: "\<And>ca ci' w' ou. load_signing_ca (ci\<lparr>ci_ou := ou\<rparr>) w = (Inr (Some (ca, ci')), w')
      \<Longrightarrow> ci_profile ci' = PROFILE_ROOT_CA \<or> ci_profile ci' = PROFILE_SUB_CA"
    using assms by (auto dest!: load_signing_ca_Some)
  have eq: "fst (build_identity e (ci\<lparr>ci_san := san\<rparr>) w) = fst (build_identity e ci w)
    \<and> snd (snd (build_identity e (ci\<lparr>ci_san := san\<rparr>) w)) = snd (snd (build_identity e ci w))"
  proof (cases "profile_ou (ci_profile ci)")
    case None
    then show ?thesis by (simp add: build_identity_def)
  next
    case (Some ou)
    obtain r1 w1 where l: "load_signing_ca (ci\<lparr>ci_ou := ou\<rparr>) w = (r1, w1)"
      by (cases "load_signing_ca (ci\<lparr>ci_ou := ou\<rparr>) w") blast
    show ?thesis
    proof (cases r1)
      case (Inl ft)
      with Some l show ?thesis
        by (simp add: build_identity_def load_signing_ca_san Let_def)
    next
      case (Inr o1)
      show ?thesis
      proof (cases o1)
        case None
        with Some l Inr show ?thesis
          by (simp add: build_identity_def load_signing_ca_san Let_def)
      next
        case (Some p)
        obtain ca ci' where p: "p = (ca, ci')" by (cases p) blast
        have l2: "load_signing_ca (ci\<lparr>ci_ou := ou\<rparr>) w = (Inr (Some (ca, ci')), w1)"
          using l Inr Some p by simp
        have ca': "ci_profile ci' = PROFILE_ROOT_CA \<or> ci_profile ci' = PROFILE_SUB_CA"
          using prof [OF l2] .
        obtain r2 w2 where g: "generate_key_pair e ci' w1 = (r2, w2)"
          by (cases "generate_key_pair e ci' w1") blast
        from \<open>profile_ou (ci_profile ci) = Some ou\<close> l2 g show ?thesis
          by (simp add: build_identity_def load_signing_ca_san phases_san Let_def
                set_profile_extensions_san [OF ca']
              split: sum.splits option.splits prod.splits)
      qed
    qed
  qed
  have ext: "fst (build_identity e (ci\<lparr>ci_san := san\<rparr>) w) = Inr 0 \<Longrightarrow>
      NID_subject_alt_name \<notin> fst ` set (stored_extensions
                (snd (snd (build_identity e (ci\<lparr>ci_san := san\<rparr>) w))) (ci_cn ci))"
  proof -
    assume ok: "fst (build_identity e (ci\<lparr>ci_san := san\<rparr>) w) = Inr 0"
    from build_identity_Inr0 [OF ok] obtain ou ca ci' pkey x where
      ld: "load_signing_ca (ci\<lparr>ci_san := san, ci_ou := ou\<rparr>) w = (Inr (Some (ca, ci')), w)"
      and sg: "set_issuer_and_sign e ci' ca pkey
           (set_profile_extensions e ci' ca (assign_fields e ci' pkey)) = Inr x"
      and fs: "files (snd (snd (build_identity e (ci\<lparr>ci_san := san\<rparr>) w)))
           = (files w)(ci_cn ci @ ''.key'' \<mapsto> PEM_PrivateKey pkey, ci_cn ci @ ''.crt'' \<mapsto> PEM_X509 x)"
      by auto
    have p: "ci_profile ci' = ci_profile ci"
      using load_signing_ca_Some [OF ld] by simp
    have st: "stored_extensions (snd (snd (build_identity e (ci\<lparr>ci_san := san\<rparr>) w))) (ci_cn ci)
        = extensions (cert_info x)"
      by (simp add: stored_extensions_def stored_cert_def fs PEM_read_X509_def)
    have ex: "extensions (cert_info x)
      = extensions (cert_info (set_profile_extensions e ci' ca (assign_fields e ci' pkey)))"
      using set_issuer_and_sign_Inr [OF sg]
      by (simp add: set_profile_extensions_rest assign_fields_fields)
    have "set (without_extended_key_usage (extensions (cert_info x)))
        \<subseteq> set (amended_template (ci_profile ci) (ci_san ci'))"
      using set_profile_extensions_subset [of e ci' ca "assign_fields e ci' pkey"]
      by (simp add: ex p assign_fields_fields without_extended_key_usage_def)
    with assms have "NID_subject_alt_name
        \<notin> fst ` set (without_extended_key_usage (extensions (cert_info x)))"
      by (auto simp: amended_template_def)
    then have "NID_subject_alt_name \<notin> fst ` set (extensions (cert_info x))"
      by (force simp: without_extended_key_usage_def)
    with st show ?thesis by simp
  qed
  from eq ext show ?thesis by blast
qed


text \<open>A root authority \<open>root2\<close> requested with and without a DNS name.\<close>

theorem san_ignored_for_authorities_witness:
  "(ci_profile (example_request PROFILE_ROOT_CA ''root2'' []) = PROFILE_ROOT_CA
      \<or> ci_profile (example_request PROFILE_ROOT_CA ''root2'' []) = PROFILE_SUB_CA)
   \<and> fst (build_identity (example_env 4)
          (example_request PROFILE_ROOT_CA ''root2'' ''DNS:example.com'') example_world)
      = fst (build_identity (example_env 4) (example_request PROFILE_ROOT_CA ''root2'' [])
          example_world)
   \<and> snd (snd (build_identity (example_env 4)
          (example_request PROFILE_ROOT_CA ''root2'' ''DNS:example.com'') example_world))
      = snd (snd (build_identity (example_env 4) (example_request PROFILE_ROOT_CA ''root2'' [])
          example_world))
   \<and> fst (build_identity (example_env 4)
          (example_request PROFILE_ROOT_CA ''root2'' ''DNS:example.com'') example_world) = Inr 0
   \<and> NID_subject_alt_name
       \<notin> fst ` set (stored_extensions (snd (snd (build_identity (example_env 4)
            (example_request PROFILE_ROOT_CA ''root2'' ''DNS:example.com'') example_world)))
              ''root2'')"
proof -
  have h: "ci_profile (example_request PROFILE_ROOT_CA ''root2'' []) = PROFILE_ROOT_CA
      \<or> ci_profile (example_request PROFILE_ROOT_CA ''root2'' []) = PROFILE_SUB_CA"
    by (simp add: example_request_def)
  have ok: "fst (build_identity (example_env 4)
          (example_request PROFILE_ROOT_CA ''root2'' ''DNS:example.com'') example_world) = Inr 0"
    by code_simp
  have cn: "ci_cn (example_request PROFILE_ROOT_CA ''root2'' []) = ''root2''"
    by (simp add: example_request_def)
  have u: "(example_request PROFILE_ROOT_CA ''root2'' [])\<lparr>ci_san := ''DNS:example.com''\<rparr>
      = example_request PROFILE_ROOT_CA ''root2'' ''DNS:example.com''"
    by (simp add: example_request_def)
  note r = san_ignored_for_authorities [OF h, of "example_env 4" "''DNS:example.com''"
      example_world, unfolded u cn]
  show ?thesis using h ok r by blast
qed

text \<open>
  C4 as stated fails: a root authority requested with a DNS name is issued, the function
  returns 0 and prints no diagnostic.
\<close>

theorem san_not_rejected_counterexample:
  "ci_san (example_request PROFILE_ROOT_CA ''root2'' ''DNS:example.com'') \<noteq> []
   \<and> fst (build_identity (example_env 4)
          (example_request PROFILE_ROOT_CA ''root2'' ''DNS:example.com'') example_world) = Inr 0
   \<and> stored_cert (snd (snd (build_identity (example_env 4)
          (example_request PROFILE_ROOT_CA ''root2'' ''DNS:example.com'') example_world)))
        ''root2'' \<noteq> None
   \<and> stderr (snd (snd (build_identity (example_env 4)
          (example_request PROFILE_ROOT_CA ''root2'' ''DNS:example.com'') example_world))) = []"
  by code_simp



section \<open>Revoking certificates\<close>

lemma add_revoked_entry_fields:
  "revoked (crl (add_revoked_entry e rvk c))
     = sort_key (\<lambda>r. serial_rank (rev_serialNumber r))
         (revoked (crl c) @ [rvk\<lparr>revocationDate := time_now e\<rparr>])"
  "crl_number (crl (add_revoked_entry e rvk c)) = crl_number (crl c)"
  by (simp_all add: add_revoked_entry_def Let_def X509_CRL_sort_def X509_CRL_add0_revoked_def
        X509_CRL_set_nextUpdate_def X509_CRL_set_lastUpdate_def X509_gmtime_adj_def)

lemma load_or_create_crl_stored:
  assumes "length ca_name \<le> FIELD_SZ"
  shows "load_or_create_crl ca_name w
     = (case stored_crl w ca_name of
          None \<Rightarrow> Inr (X509_CRL_set_crl_number (X509_CRL_set_version X509_CRL_new 1) 1)
        | Some c \<Rightarrow>
            (case crl_number (crl c) of
               None \<Rightarrow> Inl Null_dereference
             | Some n \<Rightarrow> Inr (X509_CRL_set_crl_number c (n + 1))))"
  using assms
  by (simp add: load_or_create_crl_def load_crl_def stored_crl_def strfits_def
      split: option.splits)



lemma sign_and_dump_crl_Some:
  assumes "fst (load_ca ca_name w) = Inr (Some ca)" and "fopen_wb e (ca_name @ ''.crl'')"
  shows "\<exists>c'. sign_and_dump_crl e ca_name c w
       = (Inr (), w\<lparr>files := (files w)(ca_name @ ''.crl'' \<mapsto> PEM_X509_CRL c')\<rparr>)
     \<and> revoked (crl c') = revoked (crl c) \<and> crl_number (crl c') = crl_number (crl c)"
proof -
  obtain w1 where l: "load_ca ca_name w = (Inr (Some ca), w1)"
    using assms(1) by (cases "load_ca ca_name w") simp
  from load_ca_Some [OF l] obtain x k where
    "w1 = w" "length ca_name + 4 \<le> FIELD_SZ" "cert ca = Some x" "key ca = Some k"
    by blast
  with l assms(2) show ?thesis
    by (intro exI [of _ "snd (X509_CRL_sign e
                           (X509_CRL_set_issuer_name c (X509_get_subject_name x))
                           k EVP_sha256)"])
       (simp add: sign_and_dump_crl_def Let_def strfits_def X509_CRL_sign_def
          X509_CRL_set_issuer_name_def)
qed


lemma revoke_cert_reaches_ca:
  assumes "length name \<le> FIELD_SZ" and "stored_cert w name = Some x"
    and "length ca_name \<le> FIELD_SZ"
    and "case stored_crl w ca_name of None \<Rightarrow> True | Some c \<Rightarrow> crl_number (crl c) \<noteq> None"
  shows "\<exists>c. load_or_create_crl ca_name w = Inr c
    \<and> revoke_cert e ca_name name w
       = sign_and_dump_crl e ca_name
           (add_revoked_entry e
              \<lparr>rev_serialNumber = serialNumber (cert_info x), revocationDate = 0, reason = 0\<rparr> c) w"
  using assms
  by (auto simp: revoke_cert_def load_or_create_crl_stored stored_cert_def strfits_def Let_def
           split: option.splits)


lemma stored_crl_written:
  "stored_crl (w\<lparr>files := (files w0)(n @ ''.crl'' \<mapsto> PEM_X509_CRL c)\<rparr>) n = Some c"
  by (simp add: stored_crl_def PEM_read_bio_X509_CRL_def)

lemma serial_rank_le:
  assumes "0 \<le> a" and "0 \<le> b"
  shows "serial_rank a \<le> serial_rank b \<longleftrightarrow> a \<le> b"
  using assms by (simp add: serial_rank_def)

lemma sorted_by_rank:
  assumes "sorted (map serial_rank xs)" and "\<forall>s\<in>set xs. 0 \<le> s"
  shows "sorted xs"
  using assms
proof (induction xs)
  case Nil
  show ?case by simp
next
  case (Cons x xs)
  then show ?case by (auto simp: serial_rank_le)
qed

text \<open>
  C3, amended. A revocation that goes through (the name fits, its certificate is read,
  the authority is loaded, the list can be written, and a list already on disk carries
  a number) returns normally and stores a list for the authority. When no list could be
  loaded before, the stored list has number 1 and the one entry for the revoked serial.
  When there was a list, the number is the old one plus 1, the entries are the old
  entries and one new entry for the revoked serial, there is one entry more than before,
  and the entries are in the library's order of serials, which is the ascending order
  when no serial is negative. The serial is not looked up first: it occurs once more
  than before, so revoking it twice gives two entries.
\<close>

theorem revoke_updates_crl:
  assumes name_ok: "length name \<le> FIELD_SZ"
    and target: "stored_cert w name = Some x"
    and ca: "fst (load_ca ca_name w) = Inr (Some ca)"
    and writable: "fopen_wb e (ca_name @ ''.crl'')"
    and numbered:
      "case stored_crl w ca_name of None \<Rightarrow> True | Some c \<Rightarrow> crl_number (crl c) \<noteq> None"
  shows "fst (revoke_cert e ca_name name w) = Inr ()
    \<and> (\<exists>c'. stored_crl (snd (revoke_cert e ca_name name w)) ca_name = Some c'
         \<and> (case stored_crl w ca_name of
               None \<Rightarrow>
                 crl_number (crl c') = Some 1
                 \<and> revoked (crl c')
                     = [\<lparr>rev_serialNumber = serialNumber (cert_info x),
                         revocationDate = time_now e, reason = 0\<rparr>]
             | Some c \<Rightarrow>
                 crl_number (crl c') = map_option (\<lambda>n. n + 1) (crl_number (crl c))
                 \<and> mset (revoked (crl c'))
                     = add_mset \<lparr>rev_serialNumber = serialNumber (cert_info x),
                                 revocationDate = time_now e, reason = 0\<rparr>
                         (mset (revoked (crl c)))
                 \<and> length (revoked (crl c')) = length (revoked (crl c)) + 1
                 \<and> sorted (map serial_rank (revoked_serials c'))
                 \<and> ((\<forall>s\<in>set (revoked_serials c'). 0 \<le> s) \<longrightarrow> sorted (revoked_serials c'))
                 \<and> count_list (revoked_serials c') (serialNumber (cert_info x))
                     = count_list (revoked_serials c) (serialNumber (cert_info x)) + 1))"
proof -
  let ?rvk = "\<lparr>rev_serialNumber = serialNumber (cert_info x), revocationDate = 0, reason = 0\<rparr>"
  let ?new = "\<lparr>rev_serialNumber = serialNumber (cert_info x), revocationDate = time_now e,
               reason = 0\<rparr>"
  obtain w1 where l: "load_ca ca_name w = (Inr (Some ca), w1)"
    using ca by (cases "load_ca ca_name w") simp
  have ca_len: "length ca_name \<le> FIELD_SZ"
    using load_ca_Some [OF l] by simp
  from revoke_cert_reaches_ca [OF name_ok target ca_len numbered, of e]
  obtain c0 where c0: "load_or_create_crl ca_name w = Inr c0"
    and rv: "revoke_cert e ca_name name w
       = sign_and_dump_crl e ca_name (add_revoked_entry e ?rvk c0) w"
    by blast
  from sign_and_dump_crl_Some [OF ca writable, of "add_revoked_entry e ?rvk c0"]
  obtain c' where sd: "sign_and_dump_crl e ca_name (add_revoked_entry e ?rvk c0) w
       = (Inr (), w\<lparr>files := (files w)(ca_name @ ''.crl'' \<mapsto> PEM_X509_CRL c')\<rparr>)"
    and rev': "revoked (crl c')
       = sort_key (\<lambda>r. serial_rank (rev_serialNumber r)) (revoked (crl c0) @ [?new])"
    and num': "crl_number (crl c') = crl_number (crl c0)"
    by (auto simp: add_revoked_entry_fields)
  have st: "stored_crl (snd (revoke_cert e ca_name name w)) ca_name = Some c'"
    by (simp add: rv sd stored_crl_written)
  have ok: "fst (revoke_cert e ca_name name w) = Inr ()"
    by (simp add: rv sd)
  show ?thesis
  proof (cases "stored_crl w ca_name")
    case None
    with c0 have "c0 = X509_CRL_set_crl_number (X509_CRL_set_version X509_CRL_new 1) 1"
      by (simp add: load_or_create_crl_stored [OF ca_len])
    then have "revoked (crl c0) = []" "crl_number (crl c0) = Some 1"
      by (simp_all add: X509_CRL_set_crl_number_def X509_CRL_set_version_def X509_CRL_new_def)
    with None st ok rev' num' show ?thesis by simp
  next
    case (Some c)
    with numbered obtain n where n: "crl_number (crl c) = Some n" by auto
    with Some c0 have "c0 = X509_CRL_set_crl_number c (n + 1)"
      by (simp add: load_or_create_crl_stored [OF ca_len])
    then have old: "revoked (crl c0) = revoked (crl c)" "crl_number (crl c0) = Some (n + 1)"
      by (simp_all add: X509_CRL_set_crl_number_def)
    have m: "mset (revoked (crl c')) = add_mset ?new (mset (revoked (crl c)))"
      by (simp add: rev' old)
    have len: "length (revoked (crl c')) = length (revoked (crl c)) + 1"
      by (simp add: rev' old)
    have "map serial_rank (revoked_serials c')
        = map (\<lambda>r. serial_rank (rev_serialNumber r)) (revoked (crl c'))"
      by (simp add: revoked_serials_def)
    then have srt: "sorted (map serial_rank (revoked_serials c'))"
      by (simp add: rev' sorted_sort_key)
    have asc: "(\<forall>s\<in>set (revoked_serials c'). 0 \<le> s) \<longrightarrow> sorted (revoked_serials c')"
      using sorted_by_rank [OF srt] by blast
    have "mset (revoked_serials c') = image_mset rev_serialNumber (mset (revoked (crl c')))"
      by (simp add: revoked_serials_def)
    also have "\<dots> = image_mset rev_serialNumber (add_mset ?new (mset (revoked (crl c))))"
      by (simp only: m)
    also have "\<dots> = add_mset (serialNumber (cert_info x)) (mset (revoked_serials c))"
      by (simp add: revoked_serials_def)
    finally have "mset (revoked_serials c')
        = add_mset (serialNumber (cert_info x)) (mset (revoked_serials c))" .
    then have "count (mset (revoked_serials c')) (serialNumber (cert_info x))
        = count (mset (revoked_serials c)) (serialNumber (cert_info x)) + 1"
      by simp
    then have cnt: "count_list (revoked_serials c') (serialNumber (cert_info x))
        = count_list (revoked_serials c) (serialNumber (cert_info x)) + 1"
      by (simp only: count_mset)
    from Some st ok num' old n m len srt asc cnt show ?thesis
      by simp
  qed
qed

text \<open>\<open>alice\<close>, serial 5, is revoked a second time.\<close>

theorem revoke_updates_crl_witness:
  "length ''alice'' \<le> FIELD_SZ
   \<and> stored_cert example_world_revoked ''alice'' = Some (example_cert 5 ''alice'' 2)
   \<and> fst (load_ca ''root'' example_world_revoked)
       = Inr (Some \<lparr>key = Some (EVP_PKEY_RSA (2048, 1)),
                    cert = Some (example_cert 1 ''root'' 1)\<rparr>)
   \<and> fopen_wb (example_env 4) (''root'' @ ''.crl'')
   \<and> (case stored_crl example_world_revoked ''root'' of
         None \<Rightarrow> False
       | Some c \<Rightarrow> crl_number (crl c) = Some 1 \<and> revoked_serials c = [5])
   \<and> (\<exists>c'. stored_crl (snd (revoke_cert (example_env 4) ''root'' ''alice''
                 example_world_revoked)) ''root'' = Some c'
         \<and> crl_number (crl c') = Some 2
         \<and> length (revoked (crl c')) = 2
         \<and> (\<forall>s\<in>set (revoked_serials c'). 0 \<le> s)
         \<and> sorted (revoked_serials c')
         \<and> count_list (revoked_serials c') 5 = 2)"
proof -
  have h1: "length ''alice'' \<le> FIELD_SZ" by (simp add: FIELD_SZ_def)
  have h2: "stored_cert example_world_revoked ''alice'' = Some (example_cert 5 ''alice'' 2)"
    by code_simp
  have h3: "fst (load_ca ''root'' example_world_revoked)
       = Inr (Some \<lparr>key = Some (EVP_PKEY_RSA (2048, 1)),
                    cert = Some (example_cert 1 ''root'' 1)\<rparr>)"
    by code_simp
  have h4: "fopen_wb (example_env 4) (''root'' @ ''.crl'')"
    by (simp add: example_env_def)
  have h5: "case stored_crl example_world_revoked ''root'' of
              None \<Rightarrow> True | Some c \<Rightarrow> crl_number (crl c) \<noteq> None"
    by code_simp
  have old: "case stored_crl example_world_revoked ''root'' of
         None \<Rightarrow> False
       | Some c \<Rightarrow> crl_number (crl c) = Some 1 \<and> revoked_serials c = [5]"
    by code_simp
  have sn: "serialNumber (cert_info (example_cert 5 ''alice'' 2)) = 5"
    by (simp add: example_cert_def)
  note r = revoke_updates_crl [OF h1 h2 h3 h4 h5, unfolded sn]
  from old obtain c where c: "stored_crl example_world_revoked ''root'' = Some c"
    "crl_number (crl c) = Some 1" "revoked_serials c = [5]"
    by (auto split: option.splits)
  from r c obtain c' where c':
    "stored_crl (snd (revoke_cert (example_env 4) ''root'' ''alice'' example_world_revoked))
       ''root'' = Some c'"
    "crl_number (crl c') = Some 2"
    "mset (revoked (crl c'))
       = add_mset \<lparr>rev_serialNumber = 5, revocationDate = time_now (example_env 4), reason = 0\<rparr>
           (mset (revoked (crl c)))"
    "length (revoked (crl c')) = length (revoked (crl c)) + 1"
    "(\<forall>s\<in>set (revoked_serials c'). 0 \<le> s) \<longrightarrow> sorted (revoked_serials c')"
    "count_list (revoked_serials c') 5 = count_list (revoked_serials c) 5 + 1"
    by auto
  have "set (revoked_serials c') = set_mset (image_mset rev_serialNumber (mset (revoked (crl c'))))"
    by (simp add: revoked_serials_def)
  also have "\<dots> = insert 5 (set (revoked_serials c))"
    by (simp only: c'(3)) (simp add: revoked_serials_def)
  finally have nonneg: "\<forall>s\<in>set (revoked_serials c'). 0 \<le> s"
    using c(3) by simp
  have len: "length (revoked (crl c')) = 2"
    using c'(4) arg_cong [OF c(3), of length] by (simp add: revoked_serials_def)
  from c' c nonneg len have "\<exists>c'. stored_crl (snd (revoke_cert (example_env 4) ''root'' ''alice''
                 example_world_revoked)) ''root'' = Some c'
         \<and> crl_number (crl c') = Some 2
         \<and> length (revoked (crl c')) = 2
         \<and> (\<forall>s\<in>set (revoked_serials c'). 0 \<le> s)
         \<and> sorted (revoked_serials c')
         \<and> count_list (revoked_serials c') 5 = 2"
    by auto
  with h1 h2 h3 h4 old show ?thesis by blast
qed

text \<open>
  C3 as stated fails. With \<open>bob\<close>, serial 3, on the list, revoking \<open>eve\<close>, serial -7, gives
  the entries 3, -7, which are not in ascending order. And when the list on disk carries
  no number, revoking \<open>alice\<close> ends in the use of the NULL number at line 453: nothing is
  incremented or appended.
\<close>

theorem revoked_order_counterexample:
  "(case stored_crl example_world_eve ''root'' of
      None \<Rightarrow> False
    | Some c \<Rightarrow> crl_number (crl c) = Some 1 \<and> revoked_serials c = [3])
   \<and> stored_cert example_world_eve ''eve'' = Some (example_cert (- 7) ''eve'' 5)
   \<and> fst (revoke_cert (example_env 4) ''root'' ''eve'' example_world_eve) = Inr ()
   \<and> (case stored_crl (snd (revoke_cert (example_env 4) ''root'' ''eve'' example_world_eve))
             ''root'' of
        None \<Rightarrow> False
      | Some c \<Rightarrow>
          crl_number (crl c) = Some 2 \<and> revoked_serials c = [3, - 7]
          \<and> \<not> sorted (revoked_serials c))
   \<and> (case stored_crl example_world_unnumbered ''root'' of
        None \<Rightarrow> False
      | Some c \<Rightarrow> crl_number (crl c) = None \<and> revoked_serials c = [3])
   \<and> fst (revoke_cert (example_env 4) ''root'' ''alice'' example_world_unnumbered)
       = Inl Null_dereference
   \<and> stored_crl (snd (revoke_cert (example_env 4) ''root'' ''alice'' example_world_unnumbered))
         ''root''
       = stored_crl example_world_unnumbered ''root''"
  by code_simp



text \<open>
  C10. When no certificate can be read under the name (the \<^verbatim>\<open>.crt\<close> file is missing, or
  it does not parse), the revocation leaves every file as it was; the authority's list
  in particular has the same entries and the same number as before. A missing file ends
  in the diagnostic and a return, a file that does not parse in the use of the NULL
  certificate, before anything is written.
\<close>

theorem unreadable_cert_keeps_crl:
  assumes "stored_cert w name = None"
  shows "files (snd (revoke_cert e ca_name name w)) = files w
    \<and> stored_crl (snd (revoke_cert e ca_name name w)) ca_name = stored_crl w ca_name
    \<and> (length name \<le> FIELD_SZ \<longrightarrow>
         (case files w (name @ ''.crt'') of
            None \<Rightarrow>
              revoke_cert e ca_name name w
                = (Inr (), fprintf_stderr (''Cannot find: '' @ name @ ''.crt'' @ nl) w)
          | Some f \<Rightarrow> revoke_cert e ca_name name w = (Inl Null_dereference, w)))"
proof -
  have unchanged: "files (snd (revoke_cert e ca_name name w)) = files w"
    using assms
    by (simp add: revoke_cert_def stored_cert_def fprintf_stderr_def split: option.splits)
  have outcome: "length name \<le> FIELD_SZ \<longrightarrow>
         (case files w (name @ ''.crt'') of
            None \<Rightarrow>
              revoke_cert e ca_name name w
                = (Inr (), fprintf_stderr (''Cannot find: '' @ name @ ''.crt'' @ nl) w)
          | Some f \<Rightarrow> revoke_cert e ca_name name w = (Inl Null_dereference, w))"
    using assms
    by (simp add: revoke_cert_def stored_cert_def strfits_def split: option.splits)
  from unchanged outcome show ?thesis by (simp add: stored_crl_def)
qed

text \<open>\<open>junk.crt\<close> is not a certificate and there is no \<open>carol.crt\<close>; the list of \<open>root\<close>
  holds \<open>alice\<close>.\<close>

theorem unreadable_cert_keeps_crl_witness:
  "stored_cert example_world_revoked ''junk'' = None
   \<and> files example_world_revoked ''junk.crt'' = Some Not_PEM
   \<and> revoke_cert (example_env 4) ''root'' ''junk'' example_world_revoked
       = (Inl Null_dereference, example_world_revoked)
   \<and> (case stored_crl (snd (revoke_cert (example_env 4) ''root'' ''junk'' example_world_revoked))
              ''root'' of
         None \<Rightarrow> False
       | Some c \<Rightarrow> crl_number (crl c) = Some 1 \<and> revoked_serials c = [5])
   \<and> stored_cert example_world_revoked ''carol'' = None
   \<and> files example_world_revoked ''carol.crt'' = None
   \<and> files (snd (revoke_cert (example_env 4) ''root'' ''carol'' example_world_revoked))
       = files example_world_revoked
   \<and> fst (revoke_cert (example_env 4) ''root'' ''carol'' example_world_revoked) = Inr ()"
proof -
  have h: "stored_cert example_world_revoked ''junk'' = None"
    by code_simp
  have f: "files example_world_revoked (''junk'' @ ''.crt'') = Some Not_PEM"
    by code_simp
  have len: "length ''junk'' \<le> FIELD_SZ" "length ''carol'' \<le> FIELD_SZ"
    by (simp_all add: FIELD_SZ_def)
  have old: "case stored_crl example_world_revoked ''root'' of
         None \<Rightarrow> False
       | Some c \<Rightarrow> crl_number (crl c) = Some 1 \<and> revoked_serials c = [5]"
    by code_simp
  have h': "stored_cert example_world_revoked ''carol'' = None"
    by code_simp
  have f': "files example_world_revoked (''carol'' @ ''.crt'') = None"
    by code_simp
  note r = unreadable_cert_keeps_crl [OF h, of "example_env 4" "''root''"]
  note r' = unreadable_cert_keeps_crl [OF h', of "example_env 4" "''root''"]
  from r len f have junk: "revoke_cert (example_env 4) ''root'' ''junk'' example_world_revoked
       = (Inl Null_dereference, example_world_revoked)"
    by simp
  from r' len f' have carol:
    "files (snd (revoke_cert (example_env 4) ''root'' ''carol'' example_world_revoked))
       = files example_world_revoked
     \<and> fst (revoke_cert (example_env 4) ''root'' ''carol'' example_world_revoked) = Inr ()"
    by (simp add: fprintf_stderr_def)
  from h f old h' f' junk carol show ?thesis by simp
qed


section \<open>The command line\<close>

text \<open>
  C8. The claim fails on the source: nine \<open>dns=\<close> fields are all accumulated, one more
  than \<open>MAX_SAN\<close>, which only sizes the local array; and a value that does not fit is not
  cut but written past the end of \<^verbatim>\<open>tmp\<close>.
\<close>

theorem san_count_not_capped:
  "parse_cmd_line
     [''2cca'', ''www'', ''dns=a'', ''dns=b'', ''dns=c'', ''dns=d'', ''dns=e'', ''dns=f'',
      ''dns=g'', ''dns=h'', ''dns=i''] certinfo_init
     = Inr (0, certinfo_init\<lparr>ci_san := ''DNS:a,DNS:b,DNS:c,DNS:d,DNS:e,DNS:f,DNS:g,DNS:h,DNS:i''\<rparr>)
   \<and> parse_cmd_line [''2cca'', ''www'', ''dns='' @ replicate 125 (CHR ''a'')] certinfo_init
     = Inl Buffer_overrun"
  by code_simp

text \<open>
  C9. The claim fails on the source: an \<open>email=\<close> field that is not the first entry is
  joined with a comma and a newline, where a \<open>dns=\<close> field is joined with a comma.
\<close>

theorem email_joined_with_comma_newline:
  "parse_cmd_line [''2cca'', ''www'', ''dns=a.org'', ''email=b@c.org''] certinfo_init
     = Inr (0, certinfo_init\<lparr>ci_san := ''DNS:a.org,'' @ [CHR 0x0A] @ ''email:b@c.org''\<rparr>)
   \<and> parse_cmd_line [''2cca'', ''www'', ''email=b@c.org'', ''dns=a.org''] certinfo_init
     = Inr (0, certinfo_init\<lparr>ci_san := ''email:b@c.org,DNS:a.org''\<rparr>)"
  by code_simp

end
